theory Spec2Isabelle
  imports Main "HOL-Library.Word"
begin

unbundle bit_operations_syntax

section \<open>The HDD Saver driver (saver6775.c)\<close>

text \<open>
  A shallow embedding of \<^verbatim>\<open>dkms/src/saver6775.c\<close>. Every driver function becomes a
  function that takes the device data and the machine and returns them updated. The
  sequential behaviour is modelled: \<open>mutex_lock\<close>/\<open>mutex_unlock\<close> on \<open>update_lock\<close>
  are paired on every path of the source and are left out, as are the \<open>pr_*\<close> log
  calls.
\<close>

subsection \<open>Constants\<close>

type_synonym u8 = "8 word"
type_synonym u16 = "16 word"
type_synonym ulong = "64 word"

definition SIO_REG_LDSEL :: u8 where "SIO_REG_LDSEL = 0x07"
definition SIO_REG_DEVID :: u8 where "SIO_REG_DEVID = 0x20"
definition SIO_REG_ENABLE :: u8 where "SIO_REG_ENABLE = 0x30"
definition SIO_REG_ADDR :: u8 where "SIO_REG_ADDR = 0x60"
definition SIO_ID_MASK :: u16 where "SIO_ID_MASK = 0xFFF8"
definition SIO_NCT6791_ID :: u16 where "SIO_NCT6791_ID = 0xc800"
definition NCT6775_LD_HWM :: u8 where "NCT6775_LD_HWM = 0x0b"
definition NCT6775_LD_GPIO_DATA :: u8 where "NCT6775_LD_GPIO_DATA = 0x08"
definition NCT6775_REG_CR_GPIO1_DATA :: u8 where "NCT6775_REG_CR_GPIO1_DATA = 0xf1"
definition NCT6791_REG_HM_IO_SPACE_LOCK_ENABLE :: u8 where
  "NCT6791_REG_HM_IO_SPACE_LOCK_ENABLE = 0x28"
definition IOREGION_ALIGNMENT :: u16 where "IOREGION_ALIGNMENT = NOT 7"
definition IOREGION_OFFSET :: int where "IOREGION_OFFSET = 5"
definition IOREGION_LENGTH :: nat where "IOREGION_LENGTH = 2"
definition NCT6775_REG_CONFIG :: u16 where "NCT6775_REG_CONFIG = 0x40"
definition MAXRETRIES :: nat where "MAXRETRIES = 5"

subsection \<open>Data\<close>

text \<open>
  \<open>enum kinds\<close> has the single member \<open>nct6791\<close>: the \<open>default\<close> branches of the
  two \<open>switch (data->kind)\<close> statements of the probe cannot be taken and have no
  counterpart below.
\<close>

datatype kinds = nct6791

datatype error = EBUSY | ENOMEM | ENODEV | EINVAL | Errno int

record nct6775_sio_data =
  sd_sioreg :: int
  sd_kind :: kinds

text \<open>
  \<open>struct nct6775_data\<close>. The array \<open>in[15][3]\<close> is never read or written and has
  no field here; \<open>update_lock\<close> is left out (see above).
\<close>

record nct6775_data =
  addr :: int
  sioreg :: int
  kind :: kinds
  REG_CONFIG :: u16
  valid :: bool
  last_updated :: ulong
  bank :: u8
  in_num :: u8
  have_hddsaver :: bool
  hddsaver_status :: bool
  sio_reg_enable :: u8

text \<open>What \<open>devm_kzalloc\<close> hands out: every byte zero.\<close>

definition kzalloc_data :: nct6775_data where
  "kzalloc_data =
     \<lparr>addr = 0, sioreg = 0, kind = nct6791, REG_CONFIG = 0, valid = False,
      last_updated = 0, bank = 0, in_num = 0, have_hddsaver = False,
      hddsaver_status = False, sio_reg_enable = 0\<rparr>"

subsection \<open>The machine: ports, region ownership and the Super-I/O chip\<close>

text \<open>
  Everything the driver asks of the kernel's port layer is recorded, in order, in the
  machine's \<open>trace\<close>.
\<close>

datatype event =
    Request_muxed_region int nat bool
  | Release_region int nat
  | Outb u8 int
  | Inb int u8
  | Devm_request_region int nat bool
  | Usleep_range nat nat

text \<open>
  Modelled from the spec: the kernel primitives \<open>outb\<close>, \<open>inb\<close>,
  \<open>request_muxed_region\<close> and \<open>release_region\<close> and the chip behind the ports are
  not part of the repository. The machine is the simulated register file of the spec's
  section 9, following its glossary: one port selects a register index and the next
  port transfers its value; the configuration space opens after the key \<open>0x87\<close> was
  written twice to the index port and closes at the key \<open>0xaa\<close>; index \<open>0x07\<close>
  selects the logical device; registers below \<open>0x30\<close> are global and the others
  belong to the selected logical device. Registers are plain latches (no external
  writer). \<open>foreign_owner\<close> says that another consumer holds the two ports;
  \<open>held\<close> that this driver does.
\<close>

record hw =
  chip_port :: int
  foreign_owner :: bool
  held :: bool
  unlocked :: bool
  key_seen :: bool
  idx_latch :: u8
  ldn :: u8
  cr_global :: "u8 \<Rightarrow> u8"
  cr_ld :: "u8 \<times> u8 \<Rightarrow> u8"
  trace :: "event list"

definition log_event :: "event \<Rightarrow> hw \<Rightarrow> hw" where
  "log_event e w = w\<lparr>trace := trace w @ [e]\<rparr>"

definition chip_index_write :: "u8 \<Rightarrow> hw \<Rightarrow> hw" where
  "chip_index_write v w =
     (if unlocked w then
        (if v = 0xaa then w\<lparr>unlocked := False, key_seen := False\<rparr>
         else w\<lparr>idx_latch := v\<rparr>)
      else if v = 0x87 then
        (if key_seen w then w\<lparr>unlocked := True, key_seen := False\<rparr>
         else w\<lparr>key_seen := True\<rparr>)
      else w\<lparr>key_seen := False\<rparr>)"

definition chip_data_write :: "u8 \<Rightarrow> hw \<Rightarrow> hw" where
  "chip_data_write v w =
     (if \<not> unlocked w then w
      else if idx_latch w = 0x07 then w\<lparr>ldn := v\<rparr>
      else if idx_latch w < 0x30 then w\<lparr>cr_global := (cr_global w)(idx_latch w := v)\<rparr>
      else w\<lparr>cr_ld := (cr_ld w)((ldn w, idx_latch w) := v)\<rparr>)"

definition chip_data_read :: "hw \<Rightarrow> u8" where
  "chip_data_read w =
     (if \<not> unlocked w then 0xff
      else if idx_latch w = 0x07 then ldn w
      else if idx_latch w < 0x30 then cr_global w (idx_latch w)
      else cr_ld w (ldn w, idx_latch w))"

definition outb :: "u8 \<Rightarrow> int \<Rightarrow> hw \<Rightarrow> hw" where
  "outb v port w =
     log_event (Outb v port)
       (if port = chip_port w then chip_index_write v w
        else if port = chip_port w + 1 then chip_data_write v w
        else w)"

definition inb :: "int \<Rightarrow> hw \<Rightarrow> u8 \<times> hw" where
  "inb port w =
     (let v = (if port = chip_port w + 1 then chip_data_read w else 0xff)
      in (v, log_event (Inb port v) w))"

definition request_muxed_region :: "int \<Rightarrow> nat \<Rightarrow> hw \<Rightarrow> bool \<times> hw" where
  "request_muxed_region start n w =
     (let ok = (\<not> foreign_owner w \<and> \<not> held w)
      in (ok, log_event (Request_muxed_region start n ok) (w\<lparr>held := (held w \<or> ok)\<rparr>)))"

definition release_region :: "int \<Rightarrow> nat \<Rightarrow> hw \<Rightarrow> hw" where
  "release_region start n w = log_event (Release_region start n) (w\<lparr>held := False\<rparr>)"

subsection \<open>I/O functions\<close>

definition superio_outb :: "int \<Rightarrow> u8 \<Rightarrow> u8 \<Rightarrow> hw \<Rightarrow> hw" where
  "superio_outb ioreg reg val w = outb val (ioreg + 1) (outb reg ioreg w)"

definition superio_inb :: "int \<Rightarrow> u8 \<Rightarrow> hw \<Rightarrow> u8 \<times> hw" where
  "superio_inb ioreg reg w = inb (ioreg + 1) (outb reg ioreg w)"

definition superio_select :: "int \<Rightarrow> u8 \<Rightarrow> hw \<Rightarrow> hw" where
  "superio_select ioreg ld w = outb ld (ioreg + 1) (outb SIO_REG_LDSEL ioreg w)"

definition superio_enter :: "int \<Rightarrow> hw \<Rightarrow> error option \<times> hw" where
  "superio_enter ioreg w =
     (case request_muxed_region ioreg 2 w of
        (False, w1) \<Rightarrow> (Some EBUSY, w1)
      | (True, w1) \<Rightarrow> (None, outb 0x87 ioreg (outb 0x87 ioreg w1)))"

definition superio_exit :: "int \<Rightarrow> hw \<Rightarrow> hw" where
  "superio_exit ioreg w =
     release_region ioreg 2 (outb 0x02 (ioreg + 1) (outb 0x02 ioreg (outb 0xaa ioreg w)))"

subsection \<open>The cached state and the control surface\<close>

text \<open>\<open>time_after(a, b)\<close> is \<open>(long)(b - a) < 0\<close> on the wrapping jiffies counter.\<close>

definition time_after :: "ulong \<Rightarrow> ulong \<Rightarrow> bool" where
  "time_after a b = (sint (b - a) < 0)"

text \<open>\<open>HZ\<close> is a kernel configuration constant and \<open>jiffies\<close> the clock: parameters.\<close>

definition nct6775_update_device :: "ulong \<Rightarrow> ulong \<Rightarrow> nct6775_data \<Rightarrow> nct6775_data" where
  "nct6775_update_device HZ jiffies data =
     (if time_after jiffies (last_updated data + HZ + HZ div 2) \<or> \<not> valid data
      then data\<lparr>last_updated := jiffies, valid := True\<rparr>
      else data)"

definition show_hddsaver :: "ulong \<Rightarrow> ulong \<Rightarrow> nct6775_data \<Rightarrow> string \<times> nct6775_data" where
  "show_hddsaver HZ jiffies data0 =
     (let data = nct6775_update_device HZ jiffies data0
      in ((if hddsaver_status data then ''On'' else ''Off'') @ [CHR 0x0A], data))"

text \<open>
  \<open>parsed\<close> is what the kernel's \<open>kstrtobool\<close> makes of the written text:
  \<open>None\<close> when it returns \<open>-EINVAL\<close>. The result is the byte count or the error.
\<close>

definition store_hddsaver ::
  "bool option \<Rightarrow> nat \<Rightarrow> nct6775_data \<Rightarrow> nct6775_sio_data \<Rightarrow> hw
     \<Rightarrow> (error + nat) \<times> nct6775_data \<times> hw" where
  "store_hddsaver parsed count data sio_data w =
     (case parsed of
        None \<Rightarrow> (Inl EINVAL, data, w)
      | Some val \<Rightarrow>
          (case superio_enter (sd_sioreg sio_data) w of
             (Some ret, w1) \<Rightarrow> (Inl ret, data, w1)
           | (None, w1) \<Rightarrow>
               (if val \<noteq> hddsaver_status data then
                  (let w2 = superio_select (sd_sioreg sio_data) NCT6775_LD_GPIO_DATA w1;
                       (tmp, w3) = superio_inb (sd_sioreg sio_data) NCT6775_REG_CR_GPIO1_DATA w2;
                       w4 = superio_outb (sd_sioreg sio_data) NCT6775_REG_CR_GPIO1_DATA
                              (tmp XOR push_bit 0 1) w3
                   in (Inr count, data\<lparr>hddsaver_status := val\<rparr>,
                       superio_exit (sd_sioreg sio_data) w4))
                else (Inr count, data, superio_exit (sd_sioreg sio_data) w1))))"

definition nct6791_enable_io_mapping :: "int \<Rightarrow> hw \<Rightarrow> hw" where
  "nct6791_enable_io_mapping sioaddr w =
     (let (val, w1) = superio_inb sioaddr NCT6791_REG_HM_IO_SPACE_LOCK_ENABLE w
      in if val AND 0x10 \<noteq> 0
         then superio_outb sioaddr NCT6791_REG_HM_IO_SPACE_LOCK_ENABLE (val AND NOT 0x10) w1
         else w1)"

subsection \<open>Suspend and resume\<close>

definition hddsaver_suspend :: "ulong \<Rightarrow> ulong \<Rightarrow> nct6775_data \<Rightarrow> int \<times> nct6775_data" where
  "hddsaver_suspend HZ jiffies data0 = (0, nct6775_update_device HZ jiffies data0)"

definition hddsaver_resume :: "nct6775_data \<Rightarrow> hw \<Rightarrow> error option \<times> nct6775_data \<times> hw" where
  "hddsaver_resume data0 w =
     (let data = data0\<lparr>bank := 0xff\<rparr>
      in case superio_enter (sioreg data) w of
           (Some err, w1) \<Rightarrow> (Some err, data\<lparr>valid := False\<rparr>, w1)
         | (None, w1) \<Rightarrow>
             (let w2 = superio_select (sioreg data) NCT6775_LD_HWM w1;
                  (reg, w3) = superio_inb (sioreg data) SIO_REG_ENABLE w2;
                  w4 = (if reg \<noteq> sio_reg_enable data
                        then superio_outb (sioreg data) SIO_REG_ENABLE (sio_reg_enable data) w3
                        else w3);
                  w5 = (case kind data of nct6791 \<Rightarrow> nct6791_enable_io_mapping (sioreg data) w4)
              in (None, data\<lparr>valid := False\<rparr>, superio_exit (sioreg data) w5)))"

subsection \<open>Probe\<close>

text \<open>
  What the kernel and the platform decide during \<open>nct6775_probe\<close>: the pointer that
  the \<open>i\<close>-th call of \<open>devm_request_region\<close> returns (\<open>0\<close> is \<open>NULL\<close>: the region
  was refused), whether \<open>devm_kzalloc\<close> succeeds, the DMI strings (\<open>None\<close> for a null pointer), the return value of
  \<open>sysfs_create_group\<close>, and the value that the local \<open>hwmon_dev\<close>, which the
  source never assigns, happens to hold when \<open>PTR_ERR_OR_ZERO\<close> reads it.
\<close>

record probe_env =
  devm_request_region_ret :: "nat \<Rightarrow> ulong"
  kzalloc_ok :: bool
  board_vendor :: "string option"
  board_name :: "string option"
  sysfs_create_group_ret :: int
  hwmon_dev :: int

text \<open>
  The source declares \<open>int region\<close> and assigns it the \<open>struct resource *\<close> that
  \<open>devm_request_region\<close> returns: the pointer is cut down to the 32 bits of an
  \<open>int\<close>, and it is this \<open>int\<close> that the loop and the probe test.
\<close>

definition ptr_to_int :: "ulong \<Rightarrow> 32 word" where
  "ptr_to_int p = ucast p"

text \<open>
  The \<open>for\<close> loop of the probe, from its counter \<open>i\<close> on; the result is \<open>region\<close>,
  which is \<open>0\<close> when the loop runs out of attempts. The event records whether the
  kernel granted the region (a pointer other than \<open>NULL\<close>).
\<close>

function probe_request_loop ::
  "(nat \<Rightarrow> ulong) \<Rightarrow> int \<Rightarrow> nat \<Rightarrow> hw \<Rightarrow> 32 word \<times> hw" where
  "probe_request_loop ret start i w =
     (if i < MAXRETRIES then
        (let region = ptr_to_int (ret i);
             w1 = log_event (Devm_request_region start IOREGION_LENGTH (ret i \<noteq> 0)) w
         in if region \<noteq> 0 then (region, w1)
            else probe_request_loop ret start (Suc i)
                   (log_event (Usleep_range 100000 100001) w1))
      else (0, w))"
  by pat_completeness auto
termination
  by (relation "measure (\<lambda>(ret, start, i, w). MAXRETRIES - i)") auto

text \<open>\<open>IS_ERR\<close> holds of the pointers whose value, as a \<open>long\<close>, is in \<open>[-4095, -1]\<close>.\<close>

definition PTR_ERR_OR_ZERO :: "int \<Rightarrow> int" where
  "PTR_ERR_OR_ZERO p = (if - 4095 \<le> p \<and> p < 0 then p else 0)"

definition nct6775_probe ::
  "probe_env \<Rightarrow> int \<Rightarrow> nct6775_sio_data \<Rightarrow> hw \<Rightarrow> (error + nct6775_data) \<times> hw" where
  "nct6775_probe env res_start sio_data w =
     (case probe_request_loop (devm_request_region_ret env) res_start 0 w of
        (region, w1) \<Rightarrow>
          if region = 0 then (Inl EBUSY, w1)
          else if \<not> kzalloc_ok env then (Inl ENOMEM, w1)
          else
            (let data1 = kzalloc_data\<lparr>kind := sd_kind sio_data, sioreg := sd_sioreg sio_data,
                           addr := res_start, bank := 0xff\<rparr>;
                 data2 = (case kind data1 of
                            nct6791 \<Rightarrow> data1\<lparr>in_num := 15, REG_CONFIG := NCT6775_REG_CONFIG\<rparr>)
             in case superio_enter (sd_sioreg sio_data) w1 of
                  (Some err, w2) \<Rightarrow> (Inl err, w2)
                | (None, w2) \<Rightarrow>
                    (let (cr2a, w3) = superio_inb (sd_sioreg sio_data) 0x2a w2;
                         data3 =
                           (case kind data2 of
                              nct6791 \<Rightarrow>
                                (case (board_name env, board_vendor env) of
                                   (Some name, Some vendor) \<Rightarrow>
                                     if vendor = ''ASRock'' then
                                       (if name = ''Z97 Extreme4'' \<or> name = ''Z97 Extreme6''
                                           \<or> name = ''X99 Extreme4/3.1''
                                        then data2\<lparr>have_hddsaver := (cr2a AND push_bit 6 1 \<noteq> 0)\<rparr>
                                        else data2)
                                     else data2
                                 | _ \<Rightarrow> data2));
                         (data4, w4) =
                           (if have_hddsaver data3 then
                              (let w3a = superio_select (sd_sioreg sio_data) NCT6775_LD_GPIO_DATA w3;
                                   (tmp, w3b) = superio_inb (sd_sioreg sio_data)
                                                  NCT6775_REG_CR_GPIO1_DATA w3a
                               in (data3\<lparr>hddsaver_status := (tmp AND push_bit 0 1 \<noteq> 0)\<rparr>, w3b))
                            else (data3, w3));
                         w5 = superio_exit (sd_sioreg sio_data) w4
                     in if sysfs_create_group_ret env \<noteq> 0
                        then (Inl (Errno (sysfs_create_group_ret env)), w5)
                        else if PTR_ERR_OR_ZERO (hwmon_dev env) \<noteq> 0
                        then (Inl (Errno (PTR_ERR_OR_ZERO (hwmon_dev env))), w5)
                        else (Inr data4, w5))))"

subsection \<open>Chip identification\<close>

text \<open>
  \<open>nct6775_find\<close> returns the error or the base address, with the \<open>sio_data\<close> it
  fills in. The two bytes of a 16-bit register are read high byte first, as the source
  writes the expression.
\<close>

definition read_u16 :: "u8 \<Rightarrow> u8 \<Rightarrow> u16" where
  "read_u16 hi lo = push_bit 8 (ucast hi) OR ucast lo"

definition nct6775_find :: "int \<Rightarrow> hw \<Rightarrow> (error + int \<times> nct6775_sio_data) \<times> hw" where
  "nct6775_find sioaddr w =
     (case superio_enter sioaddr w of
        (Some err, w1) \<Rightarrow> (Inl err, w1)
      | (None, w1) \<Rightarrow>
          (let (hi, w2) = superio_inb sioaddr SIO_REG_DEVID w1;
               (lo, w3) = superio_inb sioaddr (SIO_REG_DEVID + 1) w2;
               val = read_u16 hi lo
           in if val AND SIO_ID_MASK \<noteq> SIO_NCT6791_ID
              then (Inl ENODEV, superio_exit sioaddr w3)
              else
                (let sio_kind = nct6791;
                     w4 = superio_select sioaddr NCT6775_LD_HWM w3;
                     (ahi, w5) = superio_inb sioaddr SIO_REG_ADDR w4;
                     (alo, w6) = superio_inb sioaddr (SIO_REG_ADDR + 1) w5;
                     addr = uint (read_u16 ahi alo AND IOREGION_ALIGNMENT)
                 in if addr = 0 then (Inl ENODEV, superio_exit sioaddr w6)
                    else
                      (let (en, w7) = superio_inb sioaddr SIO_REG_ENABLE w6;
                           w8 = (if en AND 0x01 = 0
                                 then superio_outb sioaddr SIO_REG_ENABLE (en OR 0x01) w7
                                 else w7);
                           w9 = (case sio_kind of
                                   nct6791 \<Rightarrow> nct6791_enable_io_mapping sioaddr w8)
                       in (Inr (addr, \<lparr>sd_sioreg = sioaddr, sd_kind = sio_kind\<rparr>),
                           superio_exit sioaddr w9)))))"

section \<open>Notions the properties are stated in\<close>

subsection \<open>Traces\<close>

text \<open>What \<open>superio_enter\<close> issues when the region is granted, and what \<open>superio_exit\<close> issues.\<close>

definition enter_events :: "int \<Rightarrow> event list" where
  "enter_events io = [Request_muxed_region io 2 True, Outb 0x87 io, Outb 0x87 io]"

definition exit_events :: "int \<Rightarrow> event list" where
  "exit_events io = [Outb 0xaa io, Outb 0x02 io, Outb 0x02 (io + 1), Release_region io 2]"

text \<open>The events an operation added, going from machine \<open>w\<close> to machine \<open>w'\<close>.\<close>

definition new_events :: "hw \<Rightarrow> hw \<Rightarrow> event list" where
  "new_events w w' = drop (length (trace w)) (trace w')"

text \<open>
  A port access that may stand inside a bracket: any read, and any write but the lock
  key on the index port. Requests, releases and sleeps may not.
\<close>

fun inside_access :: "int \<Rightarrow> event \<Rightarrow> bool" where
  "inside_access io (Outb v p) = (\<not> (v = 0xaa \<and> p = io))"
| "inside_access io (Inb p v) = True"
| "inside_access io _ = False"

fun body_then_exit :: "int \<Rightarrow> event list \<Rightarrow> bool" where
  "body_then_exit io [] = False"
| "body_then_exit io (e # es) =
     (if e # es = exit_events io then True else inside_access io e \<and> body_then_exit io es)"

text \<open>
  One complete bracket: the granted request and the unlock key, then port accesses only,
  then the exit sequence, which ends the trace.
\<close>

definition paired_bracket :: "int \<Rightarrow> event list \<Rightarrow> bool" where
  "paired_bracket io t = (take 3 t = enter_events io \<and> body_then_exit io (drop 3 t))"

fun is_release :: "event \<Rightarrow> bool" where
  "is_release (Release_region p n) = True"
| "is_release _ = False"

text \<open>The events of the reservation loop of the probe.\<close>

fun is_retry_event :: "event \<Rightarrow> bool" where
  "is_retry_event (Devm_request_region p n ok) = True"
| "is_retry_event (Usleep_range a b) = True"
| "is_retry_event _ = False"

text \<open>
  The \<open>i\<close>-th attempt as the trace shows it, and the attempts \<open>i\<close> to \<open>i + n - 1\<close>
  when each of them is followed by the sleep (the loop went on).
\<close>

definition attempt_event :: "(nat \<Rightarrow> ulong) \<Rightarrow> int \<Rightarrow> nat \<Rightarrow> event" where
  "attempt_event ret start i = Devm_request_region start IOREGION_LENGTH (ret i \<noteq> 0)"

definition retried_attempts :: "(nat \<Rightarrow> ulong) \<Rightarrow> int \<Rightarrow> nat \<Rightarrow> nat \<Rightarrow> event list" where
  "retried_attempts ret start i n =
     concat (map (\<lambda>j. [attempt_event ret start j, Usleep_range 100000 100001]) [i..<i + n])"

subsection \<open>Registers of the chip\<close>

definition gpio1_data :: "hw \<Rightarrow> u8" where
  "gpio1_data w = cr_ld w (NCT6775_LD_GPIO_DATA, NCT6775_REG_CR_GPIO1_DATA)"

definition hwm_enable :: "hw \<Rightarrow> u8" where
  "hwm_enable w = cr_ld w (NCT6775_LD_HWM, SIO_REG_ENABLE)"

definition devid :: "hw \<Rightarrow> u16" where
  "devid w = read_u16 (cr_global w SIO_REG_DEVID) (cr_global w (SIO_REG_DEVID + 1))"

definition hwm_base :: "hw \<Rightarrow> u16" where
  "hwm_base w = read_u16 (cr_ld w (NCT6775_LD_HWM, SIO_REG_ADDR))
                         (cr_ld w (NCT6775_LD_HWM, SIO_REG_ADDR + 1))"

subsection \<open>The allow-list, in the spec's words\<close>

definition on_allow_list :: "string option \<Rightarrow> string option \<Rightarrow> bool" where
  "on_allow_list vendor name =
     (case (vendor, name) of
        (Some v, Some n) \<Rightarrow>
          v = ''ASRock'' \<and>
          n \<in> set [''Z97 Extreme4'', ''Z97 Extreme6'', ''X99 Extreme4/3.1'']
      | _ \<Rightarrow> False)"

subsection \<open>Sequences of control-surface operations\<close>

text \<open>
  A read of the attribute at some time, a write of some text, or the environment taking
  or giving back the two ports between operations.
\<close>

datatype surface_op = Read_toggle ulong | Write_toggle "bool option" nat | Contention bool

fun surface_step ::
  "ulong \<Rightarrow> nct6775_sio_data \<Rightarrow> surface_op \<Rightarrow> nct6775_data \<times> hw \<Rightarrow> nct6775_data \<times> hw" where
  "surface_step HZ sio (Read_toggle jiffies) (d, w) = (snd (show_hddsaver HZ jiffies d), w)"
| "surface_step HZ sio (Write_toggle parsed n) (d, w) = snd (store_hddsaver parsed n d sio w)"
| "surface_step HZ sio (Contention b) (d, w) = (d, w\<lparr>foreign_owner := b\<rparr>)"

fun run_surface ::
  "ulong \<Rightarrow> nct6775_sio_data \<Rightarrow> surface_op list \<Rightarrow> nct6775_data \<times> hw \<Rightarrow> nct6775_data \<times> hw" where
  "run_surface HZ sio [] s = s"
| "run_surface HZ sio (x # xs) s = run_surface HZ sio xs (surface_step HZ sio x s)"

subsection \<open>A concrete machine\<close>

text \<open>
  An NCT6791 (ID \<open>0xc803\<close>) at port \<open>0x2e\<close>, hardware monitor at \<open>0x0290\<close> and enabled,
  bit 6 of \<open>CR 0x2a\<close> set, GPIO1 data \<open>0x5b\<close>.
\<close>

definition demo_hw :: hw where
  "demo_hw =
     \<lparr>chip_port = 0x2e, foreign_owner = False, held = False, unlocked = False,
      key_seen = False, idx_latch = 0, ldn = 0,
      cr_global = (\<lambda>r. 0)(0x20 := 0xc8, 0x21 := 0x03, 0x2a := 0x40, 0x28 := 0x10),
      cr_ld = (\<lambda>r. 0)((0x0b, 0x60) := 0x02, (0x0b, 0x61) := 0x90, (0x0b, 0x30) := 0x01,
                       (0x08, 0xf1) := 0x5b),
      trace = []\<rparr>"

definition demo_sio :: nct6775_sio_data where
  "demo_sio = \<lparr>sd_sioreg = 0x2e, sd_kind = nct6791\<rparr>"

definition listed_env :: probe_env where
  "listed_env =
     \<lparr>devm_request_region_ret = (\<lambda>i. if i = 2 then 0xffff888004a3c140 else 0), kzalloc_ok = True, board_vendor = Some ''ASRock'',
      board_name = Some ''Z97 Extreme4'', sysfs_create_group_ret = 0, hwmon_dev = 0\<rparr>"

definition unlisted_env :: probe_env where
  "unlisted_env =
     \<lparr>devm_request_region_ret = (\<lambda>i. 0xffff888004a3c140), kzalloc_ok = True, board_vendor = Some ''ASRock'',
      board_name = Some ''Z97 Pro4'', sysfs_create_group_ret = 0, hwmon_dev = 0\<rparr>"

definition busy_env :: probe_env where
  "busy_env =
     \<lparr>devm_request_region_ret = (\<lambda>i. 0), kzalloc_ok = True, board_vendor = Some ''ASRock'',
      board_name = Some ''Z97 Extreme4'', sysfs_create_group_ret = 0, hwmon_dev = 0\<rparr>"

text \<open>
  A 64-bit kernel that grants the region at once, in a \<open>struct resource\<close> whose
  address has its low 32 bits zero, and refuses every later request (the region is
  taken).
\<close>

definition aligned_env :: probe_env where
  "aligned_env =
     \<lparr>devm_request_region_ret = (\<lambda>i. if i = 0 then 0xffff888100000000 else 0),
      kzalloc_ok = True, board_vendor = Some ''ASRock'',
      board_name = Some ''Z97 Extreme4'', sysfs_create_group_ret = 0, hwmon_dev = 0\<rparr>"

text \<open>
  The device data the probe leaves on a board that is not listed, and on a listed one
  (on \<open>demo_hw\<close>, where bit 0 of the GPIO1 data register is set).
\<close>

definition unlisted_data :: nct6775_data where
  "unlisted_data =
     \<lparr>addr = 0x295, sioreg = 0x2e, kind = nct6791, REG_CONFIG = 0x40, valid = False,
      last_updated = 0, bank = 0xff, in_num = 15, have_hddsaver = False,
      hddsaver_status = False, sio_reg_enable = 0\<rparr>"

definition listed_data :: nct6775_data where
  "listed_data = unlisted_data\<lparr>have_hddsaver := True, hddsaver_status := True\<rparr>"

text \<open>
  The same board with another chip of the family (an NCT6796, ID \<open>0xd423\<close>), and
  \<open>demo_hw\<close> after something other than the driver cleared bit 0 of the GPIO1 data
  register (a chip that lost its latch over a suspend).
\<close>

definition nct6796_hw :: hw where
  "nct6796_hw = demo_hw\<lparr>cr_global := (cr_global demo_hw)(0x20 := 0xd4, 0x21 := 0x23)\<rparr>"

text \<open>The NCT6796 machine while another driver holds the two ports.\<close>

definition held_nct6796_hw :: hw where
  "held_nct6796_hw = nct6796_hw\<lparr>foreign_owner := True\<rparr>"

definition cold_hw :: hw where
  "cold_hw = demo_hw\<lparr>cr_ld := (cr_ld demo_hw)((0x08, 0xf1) := 0x5a)\<rparr>"

subsection \<open>The cache agrees with the chip\<close>

definition cache_matches :: "nct6775_sio_data \<Rightarrow> nct6775_data \<Rightarrow> hw \<Rightarrow> bool" where
  "cache_matches sio d w =
     (chip_port w = sd_sioreg sio \<and> \<not> held w \<and>
      hddsaver_status d = bit (gpio1_data w) 0)"

section \<open>Properties\<close>

subsection \<open>The primitives\<close>

lemmas reg_consts =
  SIO_REG_LDSEL_def SIO_REG_DEVID_def SIO_REG_ENABLE_def SIO_REG_ADDR_def
  NCT6775_LD_HWM_def NCT6775_LD_GPIO_DATA_def NCT6775_REG_CR_GPIO1_DATA_def
  NCT6791_REG_HM_IO_SPACE_LOCK_ENABLE_def

declare probe_request_loop.simps [simp del]

lemma trace_outb: "trace (outb v p w) = trace w @ [Outb v p]"
  by (simp add: outb_def log_event_def chip_index_write_def chip_data_write_def)

lemma trace_inb: "trace (snd (inb p w)) = trace w @ [Inb p (fst (inb p w))]"
  by (simp add: inb_def log_event_def Let_def)

lemma trace_select: "trace (superio_select io ld w) = trace w @ [Outb 0x07 io, Outb ld (io + 1)]"
  by (simp add: superio_select_def trace_outb SIO_REG_LDSEL_def)

lemma trace_sinb:
  "trace (snd (superio_inb io r w)) =
   trace w @ [Outb r io, Inb (io + 1) (fst (superio_inb io r w))]"
  by (simp add: superio_inb_def trace_outb trace_inb)

lemma trace_soutb: "trace (superio_outb io r v w) = trace w @ [Outb r io, Outb v (io + 1)]"
  by (simp add: superio_outb_def trace_outb)

lemma trace_exit: "trace (superio_exit io w) = trace w @ exit_events io"
  by (simp add: superio_exit_def release_region_def log_event_def trace_outb exit_events_def)

lemma trace_enter:
  "trace (snd (superio_enter io w)) = trace w @
     (if foreign_owner w \<or> held w then [Request_muxed_region io 2 False] else enter_events io)"
  by (simp add: superio_enter_def request_muxed_region_def log_event_def trace_outb
      enter_events_def)

lemma fst_enter:
  "fst (superio_enter io w) = (if foreign_owner w \<or> held w then Some EBUSY else None)"
  by (simp add: superio_enter_def request_muxed_region_def log_event_def)

lemma trace_io_mapping:
  "trace (nct6791_enable_io_mapping io w) = trace w @
     (let v = fst (superio_inb io 0x28 w) in
      [Outb 0x28 io, Inb (io + 1) v] @
      (if v AND 0x10 \<noteq> 0 then [Outb 0x28 io, Outb (v AND NOT 0x10) (io + 1)] else []))"
  by (simp add: nct6791_enable_io_mapping_def case_prod_beta Let_def trace_sinb trace_soutb
      NCT6791_REG_HM_IO_SPACE_LOCK_ENABLE_def)

lemmas trace_simps =
  trace_select trace_sinb trace_soutb trace_exit trace_enter trace_io_mapping

lemma enter_busy:
  "foreign_owner w \<or> held w \<Longrightarrow>
   superio_enter io w = (Some EBUSY, w\<lparr>trace := trace w @ [Request_muxed_region io 2 False]\<rparr>)"
  by (auto simp add: superio_enter_def request_muxed_region_def log_event_def)

lemma enter_granted:
  assumes "\<not> foreign_owner w" "\<not> held w"
  obtains w1 where "superio_enter io w = (None, w1)"
    and "trace w1 = trace w @ enter_events io"
  using assms fst_enter [of io w] trace_enter [of io w]
  by (cases "superio_enter io w") simp

lemma enter_free:
  assumes "\<not> foreign_owner w" "\<not> held w" "chip_port w = io"
  shows "\<exists>w1. superio_enter io w = (None, w1) \<and> unlocked w1 \<and> held w1 \<and> \<not> foreign_owner w1
           \<and> chip_port w1 = io \<and> ldn w1 = ldn w \<and> cr_global w1 = cr_global w
           \<and> cr_ld w1 = cr_ld w \<and> trace w1 = trace w @ enter_events io"
  using assms
  by (simp add: superio_enter_def request_muxed_region_def log_event_def outb_def
      chip_index_write_def enter_events_def)

lemma select_unlocked:
  "unlocked w \<Longrightarrow> chip_port w = io \<Longrightarrow> superio_select io ld w =
     w\<lparr>idx_latch := 0x07, ldn := ld, trace := trace w @ [Outb 0x07 io, Outb ld (io + 1)]\<rparr>"
  by (simp add: superio_select_def outb_def log_event_def chip_index_write_def
      chip_data_write_def SIO_REG_LDSEL_def)

lemma inb_unlocked:
  "unlocked w \<Longrightarrow> chip_port w = io \<Longrightarrow> reg \<noteq> 0xaa \<Longrightarrow> superio_inb io reg w =
     (chip_data_read (w\<lparr>idx_latch := reg\<rparr>),
      w\<lparr>idx_latch := reg,
        trace := trace w @ [Outb reg io, Inb (io + 1) (chip_data_read (w\<lparr>idx_latch := reg\<rparr>))]\<rparr>)"
  by (simp add: superio_inb_def inb_def outb_def log_event_def chip_index_write_def
      chip_data_read_def Let_def)

lemma outb_unlocked:
  "unlocked w \<Longrightarrow> chip_port w = io \<Longrightarrow> reg \<noteq> 0xaa \<Longrightarrow> superio_outb io reg v w =
     (chip_data_write v (w\<lparr>idx_latch := reg\<rparr>))
       \<lparr>trace := trace w @ [Outb reg io, Outb v (io + 1)]\<rparr>"
  by (simp add: superio_outb_def outb_def log_event_def chip_index_write_def
      chip_data_write_def Let_def)

lemma exit_unlocked:
  "unlocked w \<Longrightarrow> chip_port w = io \<Longrightarrow> superio_exit io w =
     w\<lparr>held := False, unlocked := False, key_seen := False,
       trace := trace w @ exit_events io\<rparr>"
  by (simp add: superio_exit_def release_region_def outb_def log_event_def
      chip_index_write_def chip_data_write_def exit_events_def)

lemma paired_start: "body_then_exit io es \<Longrightarrow> paired_bracket io (enter_events io @ es)"
  by (simp add: paired_bracket_def enter_events_def)


subsection \<open>The probe\<close>

lemma loop_frame: "\<exists>t. snd (probe_request_loop ret s i w) = w\<lparr>trace := t\<rparr>"
proof (induction ret s i w rule: probe_request_loop.induct)
  case (1 ret start i w)
  show ?case
  proof (cases "i < MAXRETRIES \<and> ptr_to_int (ret i) = 0")
    case True
    then obtain t where "snd (probe_request_loop ret start (Suc i)
        (log_event (Usleep_range 100000 100001)
           (log_event (Devm_request_region start IOREGION_LENGTH (ret i \<noteq> 0)) w))) =
        (log_event (Usleep_range 100000 100001)
           (log_event (Devm_request_region start IOREGION_LENGTH (ret i \<noteq> 0)) w))\<lparr>trace := t\<rparr>"
      using 1 [of "ptr_to_int (ret i)"] by blast
    with True show ?thesis
      by (subst probe_request_loop.simps) (auto simp add: log_event_def)
  next
    case False
    have "\<exists>t. w = w\<lparr>trace := t\<rparr>" by (rule exI [of _ "trace w"]) simp
    with False show ?thesis
      by (subst probe_request_loop.simps) (auto simp add: log_event_def Let_def)
  qed
qed

lemma retried_attempts_Suc:
  "retried_attempts ret s i (Suc n) =
   retried_attempts ret s i 1 @ retried_attempts ret s (Suc i) n"
proof -
  have "[i..<Suc i + n] = [i..<Suc i] @ [Suc i..<Suc i + n]"
    by (rule upt_add_eq_append) simp
  then have "[i..<i + Suc n] = [i..<i + 1] @ [Suc i..<Suc i + n]"
    by simp
  then show ?thesis
    unfolding retried_attempts_def by (simp only: map_append concat_append)
qed

lemma loop_skip_trace:
  "(\<forall>j. i \<le> j \<and> j < i + n \<longrightarrow> ptr_to_int (ret j) = 0) \<Longrightarrow> i + n \<le> MAXRETRIES \<Longrightarrow>
   probe_request_loop ret s i (w\<lparr>trace := t\<rparr>) =
   probe_request_loop ret s (i + n) (w\<lparr>trace := t @ retried_attempts ret s i n\<rparr>)"
proof (induction n arbitrary: i t)
  case 0
  then show ?case by (simp add: retried_attempts_def)
next
  case (Suc n)
  have "i \<le> i \<and> i < i + Suc n" by simp
  then have a: "ptr_to_int (ret i) = 0" "i < MAXRETRIES"
    using Suc.prems by (blast, simp)
  have p: "\<forall>j. Suc i \<le> j \<and> j < Suc i + n \<longrightarrow> ptr_to_int (ret j) = 0"
  proof (intro allI impI)
    fix j
    assume "Suc i \<le> j \<and> j < Suc i + n"
    then have "i \<le> j \<and> j < i + Suc n" by arith
    then show "ptr_to_int (ret j) = 0" using Suc.prems(1) by blast
  qed
  have q: "Suc i + n \<le> MAXRETRIES" using Suc.prems(2) by simp
  have "probe_request_loop ret s i (w\<lparr>trace := t\<rparr>) =
        probe_request_loop ret s (Suc i)
          (w\<lparr>trace := t @ retried_attempts ret s i 1\<rparr>)"
    using a
    by (subst probe_request_loop.simps)
       (simp add: log_event_def retried_attempts_def attempt_event_def)
  also have "\<dots> = probe_request_loop ret s (Suc i + n)
          (w\<lparr>trace := (t @ retried_attempts ret s i 1) @ retried_attempts ret s (Suc i) n\<rparr>)"
    by (rule Suc.IH [OF p q])
  finally show ?case
    by (simp only: append_assoc retried_attempts_Suc add_Suc_right add_Suc)
qed

lemma loop_skip:
  "(\<forall>j. i \<le> j \<and> j < i + n \<longrightarrow> ptr_to_int (ret j) = 0) \<Longrightarrow> i + n \<le> MAXRETRIES \<Longrightarrow>
   probe_request_loop ret s i w =
   probe_request_loop ret s (i + n) (w\<lparr>trace := trace w @ retried_attempts ret s i n\<rparr>)"
  using loop_skip_trace [where w = w and t = "trace w" and i = i and n = n and ret = ret]
  by simp

lemma loop_all_fail:
  assumes "\<forall>i<MAXRETRIES. ptr_to_int (ret i) = 0"
  shows "probe_request_loop ret s 0 w =
           (0, w\<lparr>trace := trace w @ retried_attempts ret s 0 MAXRETRIES\<rparr>)"
proof -
  have "probe_request_loop ret s 0 w =
        probe_request_loop ret s (0 + MAXRETRIES)
          (w\<lparr>trace := trace w @ retried_attempts ret s 0 MAXRETRIES\<rparr>)"
    using assms by (intro loop_skip) auto
  then show ?thesis by (subst (asm) (2) probe_request_loop.simps) simp
qed

lemma loop_first_success:
  assumes "k < MAXRETRIES" "ptr_to_int (ret k) \<noteq> 0" "\<forall>i<k. ptr_to_int (ret i) = 0"
  shows "probe_request_loop ret s 0 w =
     (ptr_to_int (ret k),
      w\<lparr>trace := trace w @ retried_attempts ret s 0 k @ [attempt_event ret s k]\<rparr>)"
proof -
  have "probe_request_loop ret s 0 w =
        probe_request_loop ret s (0 + k) (w\<lparr>trace := trace w @ retried_attempts ret s 0 k\<rparr>)"
    using assms by (intro loop_skip) auto
  then show ?thesis
    using assms
    by (subst (asm) (2) probe_request_loop.simps) (simp add: log_event_def attempt_event_def)
qed

lemma ptr_to_int_demo:
  "ptr_to_int 0xffff888004a3c140 \<noteq> 0" "ptr_to_int 0xffff888100000000 = 0" "ptr_to_int 0 = 0"
  by (simp_all add: ptr_to_int_def)

lemma and_1_iff_bit: "(x AND 1 = 0) = (\<not> bit x 0)" for x :: u8
  using bit_iff_and_push_bit_not_eq_0 [of x 0] by simp

lemma and_64_iff_bit: "(x AND 64 = 0) = (\<not> bit x 6)" for x :: u8
  using bit_iff_and_push_bit_not_eq_0 [of x 6] by simp

lemma probe_ok:
  assumes l: "fst (probe_request_loop (devm_request_region_ret env) rs 0 w) \<noteq> 0"
    and env: "kzalloc_ok env" "sysfs_create_group_ret env = 0" "PTR_ERR_OR_ZERO (hwmon_dev env) = 0"
    and w: "\<not> foreign_owner w" "\<not> held w" "chip_port w = sd_sioreg sio"
  shows "\<exists>w'. nct6775_probe env rs sio w =
            (Inr (kzalloc_data\<lparr>kind := sd_kind sio, sioreg := sd_sioreg sio, addr := rs,
                    bank := 0xff, in_num := 15, REG_CONFIG := NCT6775_REG_CONFIG,
                    have_hddsaver := (on_allow_list (board_vendor env) (board_name env)
                                      \<and> bit (cr_global w 0x2a) 6),
                    hddsaver_status := (on_allow_list (board_vendor env) (board_name env)
                                      \<and> bit (cr_global w 0x2a) 6 \<and> bit (gpio1_data w) 0)\<rparr>), w')
          \<and> cr_ld w' = cr_ld w \<and> cr_global w' = cr_global w \<and> chip_port w' = chip_port w
          \<and> foreign_owner w' = foreign_owner w \<and> \<not> held w'"
proof -
  obtain r t where t: "probe_request_loop (devm_request_region_ret env) rs 0 w =
      (r, w\<lparr>trace := t\<rparr>)" and r: "r \<noteq> 0"
    using l loop_frame [of "devm_request_region_ret env" rs 0 w]
    by (cases "probe_request_loop (devm_request_region_ret env) rs 0 w") auto
  obtain w1 where w1: "superio_enter (sd_sioreg sio) (w\<lparr>trace := t\<rparr>) = (None, w1)" "unlocked w1"
    "chip_port w1 = sd_sioreg sio" "cr_global w1 = cr_global w" "cr_ld w1 = cr_ld w"
    "\<not> foreign_owner w1"
    using enter_free [of "w\<lparr>trace := t\<rparr>" "sd_sioreg sio"] w by auto
  show ?thesis
    using env w w1 r
    by (cases "sd_kind sio"; cases "board_name env"; cases "board_vendor env")
       (simp_all add: nct6775_probe_def t select_unlocked inb_unlocked exit_unlocked
        chip_data_read_def reg_consts gpio1_data_def kzalloc_data_def on_allow_list_def
        and_1_iff_bit and_64_iff_bit Let_def)
qed


lemma body_no_retry: "body_then_exit io es \<Longrightarrow> filter is_retry_event es = []"
proof (induction es)
  case Nil
  then show ?case by simp
next
  case (Cons e es)
  show ?case
  proof (cases "e # es = exit_events io")
    case True
    then show ?thesis by (simp add: exit_events_def)
  next
    case False
    with Cons show ?thesis by (cases e) auto
  qed
qed

lemma paired_no_retry: "paired_bracket io t \<Longrightarrow> filter is_retry_event t = []"
proof -
  assume p: "paired_bracket io t"
  have "t = take 3 t @ drop 3 t" by simp
  then have "filter is_retry_event t =
             filter is_retry_event (enter_events io) @ filter is_retry_event (drop 3 t)"
    using p by (metis filter_append paired_bracket_def)
  then show ?thesis
    using p body_no_retry [of io "drop 3 t"] by (simp add: paired_bracket_def enter_events_def)
qed

lemma probe_trace:
  "\<exists>X. trace (snd (nct6775_probe env rs sio w)) =
         trace (snd (probe_request_loop (devm_request_region_ret env) rs 0 w)) @ X \<and>
       (if fst (probe_request_loop (devm_request_region_ret env) rs 0 w) \<noteq> 0 \<and> kzalloc_ok env
        then (if foreign_owner w \<or> held w
              then X = [Request_muxed_region (sd_sioreg sio) 2 False]
                   \<and> fst (nct6775_probe env rs sio w) = Inl EBUSY
              else paired_bracket (sd_sioreg sio) X)
        else X = [])"
proof -
  obtain b t where l: "probe_request_loop (devm_request_region_ret env) rs 0 w =
      (b, w\<lparr>trace := t\<rparr>)"
    using loop_frame [of "devm_request_region_ret env" rs 0 w]
    by (cases "probe_request_loop (devm_request_region_ret env) rs 0 w") auto
  show ?thesis
  proof (cases "b \<noteq> 0 \<and> kzalloc_ok env")
    case False
    then show ?thesis by (auto simp add: nct6775_probe_def l)
  next
    case go: True
    show ?thesis
    proof (cases "foreign_owner w \<or> held w")
      case True
      then show ?thesis using go by (simp add: nct6775_probe_def l enter_busy)
    next
      case False
      then obtain w1 where e: "superio_enter (sd_sioreg sio) (w\<lparr>trace := t\<rparr>) = (None, w1)"
        and t1: "trace w1 = t @ enter_events (sd_sioreg sio)"
        using enter_granted [of "w\<lparr>trace := t\<rparr>" "sd_sioreg sio"] by auto
      show ?thesis using go False
        apply (simp add: nct6775_probe_def l e)
        apply (simp add: case_prod_beta Let_def trace_simps t1 reg_consts split: kinds.splits)
        apply (intro conjI impI paired_start)
        apply (simp_all add: exit_events_def)
        done
    qed
  qed
qed

subsection \<open>Board gating\<close>

text \<open>
  Claim C6. After the probe, \<open>have_hddsaver\<close> is false for every board vendor and
  model pair that is not on the allow-list (vendor ASRock with one of the three listed
  models), whatever the machine holds: also when bit 6 of the byte read from
  \<open>CR 0x2a\<close> is set, and also when a DMI string is missing.
\<close>

theorem board_gating:
  assumes "fst (nct6775_probe env rs sio w) = Inr d"
    and "\<not> on_allow_list (board_vendor env) (board_name env)"
  shows "\<not> have_hddsaver d"
proof -
  obtain w' where "nct6775_probe env rs sio w = (Inr d, w')"
    using assms(1) by (cases "nct6775_probe env rs sio w") simp
  with assms(2) show ?thesis
    by (auto simp add: nct6775_probe_def on_allow_list_def kzalloc_data_def Let_def
        split: prod.splits bool.splits option.splits if_splits kinds.splits)
qed

theorem board_gating_witness:
  "bit (cr_global demo_hw 0x2a) 6 \<and>
   \<not> on_allow_list (board_vendor unlisted_env) (board_name unlisted_env) \<and>
   (\<exists>d. fst (nct6775_probe unlisted_env 0x295 demo_sio demo_hw) = Inr d \<and> \<not> have_hddsaver d)"
proof -
  have l: "fst (probe_request_loop (devm_request_region_ret unlisted_env) 0x295 0 demo_hw) \<noteq> 0"
    by (simp add: loop_first_success [of 0] unlisted_env_def MAXRETRIES_def ptr_to_int_demo)
  obtain d where p: "fst (nct6775_probe unlisted_env 0x295 demo_sio demo_hw) = Inr d"
    using probe_ok [OF l, of demo_sio]
    by (auto simp add: unlisted_env_def demo_hw_def demo_sio_def PTR_ERR_OR_ZERO_def)
  have n: "\<not> on_allow_list (board_vendor unlisted_env) (board_name unlisted_env)"
    by (simp add: unlisted_env_def on_allow_list_def)
  have b: "bit (cr_global demo_hw 0x2a) 6"
    by (simp add: demo_hw_def bit_numeral_simps)
  from board_gating [OF p n] p n b show ?thesis by blast
qed

subsection \<open>The bounded retry of the region reservation\<close>

text \<open>
  What holds of the loop: it is a total function, it asks for the region at most 5
  times and sleeps \<open>usleep_range(100000, 100001)\<close> after every attempt that left
  \<open>region\<close> zero. When \<open>region\<close> is zero after each of the 5 attempts the probe
  returns \<open>EBUSY\<close>, having done nothing else; when attempt \<open>k\<close> is the first that
  leaves \<open>region\<close> other than zero, the probe makes exactly these \<open>k + 1\<close> attempts.
\<close>

lemma retry_bounded:
  "((\<forall>i<5. ptr_to_int (devm_request_region_ret env i) = 0) \<longrightarrow>
      nct6775_probe env rs sio w =
        (Inl EBUSY,
         w\<lparr>trace := trace w @ retried_attempts (devm_request_region_ret env) rs 0 5\<rparr>)) \<and>
   (\<forall>k<5. ptr_to_int (devm_request_region_ret env k) \<noteq> 0 \<and>
           (\<forall>i<k. ptr_to_int (devm_request_region_ret env i) = 0) \<longrightarrow>
      filter is_retry_event (new_events w (snd (nct6775_probe env rs sio w))) =
        retried_attempts (devm_request_region_ret env) rs 0 k @
        [attempt_event (devm_request_region_ret env) rs k])"
proof (intro conjI impI allI)
  assume "\<forall>i<5. ptr_to_int (devm_request_region_ret env i) = 0"
  then have "probe_request_loop (devm_request_region_ret env) rs 0 w =
     (0, w\<lparr>trace := trace w @ retried_attempts (devm_request_region_ret env) rs 0 MAXRETRIES\<rparr>)"
    by (intro loop_all_fail) (simp add: MAXRETRIES_def)
  then show "nct6775_probe env rs sio w =
      (Inl EBUSY,
       w\<lparr>trace := trace w @ retried_attempts (devm_request_region_ret env) rs 0 5\<rparr>)"
    by (simp add: nct6775_probe_def MAXRETRIES_def)
next
  fix k :: nat
  assume k: "k < 5"
    and a: "ptr_to_int (devm_request_region_ret env k) \<noteq> 0 \<and>
            (\<forall>i<k. ptr_to_int (devm_request_region_ret env i) = 0)"
  have l: "probe_request_loop (devm_request_region_ret env) rs 0 w =
     (ptr_to_int (devm_request_region_ret env k),
      w\<lparr>trace := trace w @ retried_attempts (devm_request_region_ret env) rs 0 k @
                          [attempt_event (devm_request_region_ret env) rs k]\<rparr>)"
    using k a by (intro loop_first_success) (simp_all add: MAXRETRIES_def)
  obtain X where X: "trace (snd (nct6775_probe env rs sio w)) =
      (trace w @ retried_attempts (devm_request_region_ret env) rs 0 k @
         [attempt_event (devm_request_region_ret env) rs k]) @ X"
    and c: "X = [] \<or> X = [Request_muxed_region (sd_sioreg sio) 2 False]
            \<or> paired_bracket (sd_sioreg sio) X"
    using probe_trace [of env rs sio w] by (auto simp add: l split: if_splits)
  have "filter is_retry_event X = []"
    using c paired_no_retry by auto
  then show "filter is_retry_event (new_events w (snd (nct6775_probe env rs sio w))) =
        retried_attempts (devm_request_region_ret env) rs 0 k @
        [attempt_event (devm_request_region_ret env) rs k]"
    by (simp add: new_events_def X retried_attempts_def attempt_event_def)
qed

lemma upt_5: "[0..<5] = [0, 1, 2, 3, 4]"
  by (simp add: upt_conv_Cons)

text \<open>
  Claim C9 says that a success on any attempt stops the retrying at once. The source
  keeps the \<open>struct resource *\<close> of \<open>devm_request_region\<close> in \<open>int region\<close> and tests
  the \<open>int\<close>: on a 64-bit kernel a granted region whose \<open>struct resource\<close> lies at an
  address with its low 32 bits zero counts as refused. The probe then sleeps, asks four
  more times for the region it already holds, and returns \<open>EBUSY\<close>.
\<close>

theorem granted_region_retried:
  "devm_request_region_ret aligned_env 0 \<noteq> 0 \<and>
   ptr_to_int (devm_request_region_ret aligned_env 0) = 0 \<and>
   nct6775_probe aligned_env 0x295 demo_sio demo_hw =
     (Inl EBUSY,
      demo_hw\<lparr>trace := trace demo_hw @
        [Devm_request_region 0x295 2 True, Usleep_range 100000 100001,
         Devm_request_region 0x295 2 False, Usleep_range 100000 100001,
         Devm_request_region 0x295 2 False, Usleep_range 100000 100001,
         Devm_request_region 0x295 2 False, Usleep_range 100000 100001,
         Devm_request_region 0x295 2 False, Usleep_range 100000 100001]\<rparr>)"
proof -
  have z: "\<forall>i<5. ptr_to_int (devm_request_region_ret aligned_env i) = 0"
    by (simp add: aligned_env_def ptr_to_int_demo)
  have e: "retried_attempts (devm_request_region_ret aligned_env) 0x295 0 5 =
        [Devm_request_region 0x295 2 True, Usleep_range 100000 100001,
         Devm_request_region 0x295 2 False, Usleep_range 100000 100001,
         Devm_request_region 0x295 2 False, Usleep_range 100000 100001,
         Devm_request_region 0x295 2 False, Usleep_range 100000 100001,
         Devm_request_region 0x295 2 False, Usleep_range 100000 100001]"
    by (simp add: retried_attempts_def attempt_event_def upt_5 aligned_env_def
        IOREGION_LENGTH_def)
  have n: "devm_request_region_ret aligned_env 0 \<noteq> 0"
    by (simp add: aligned_env_def)
  from retry_bounded [of aligned_env "0x295" demo_sio demo_hw] z e n show ?thesis
    by simp
qed

subsection \<open>Bracket pairing\<close>

lemma body_one_release:
  "body_then_exit io es \<Longrightarrow> filter is_release es = [Release_region io 2]"
proof (induction es)
  case Nil
  then show ?case by simp
next
  case (Cons e es)
  show ?case
  proof (cases "e # es = exit_events io")
    case True
    then show ?thesis by (simp add: exit_events_def)
  next
    case False
    with Cons show ?thesis by (cases e) auto
  qed
qed

lemma paired_one_exit:
  assumes "paired_bracket io t"
  shows "filter is_release t = [Release_region io 2]"
proof -
  have "t = take 3 t @ drop 3 t" by simp
  then have "filter is_release t =
             filter is_release (enter_events io) @ filter is_release (drop 3 t)"
    using assms by (metis filter_append paired_bracket_def)
  then show ?thesis
    using assms body_one_release [of io "drop 3 t"]
    by (simp add: paired_bracket_def enter_events_def)
qed

lemma find_bracket:
  "let r = nct6775_find io w; t = new_events w (snd r) in
     if foreign_owner w \<or> held w then t = [Request_muxed_region io 2 False] \<and> fst r = Inl EBUSY
     else paired_bracket io t"
proof (cases "foreign_owner w \<or> held w")
  case True
  then show ?thesis
    by (simp add: nct6775_find_def enter_busy new_events_def)
next
  case False
  then obtain w1 where e: "superio_enter io w = (None, w1)"
    and t1: "trace w1 = trace w @ enter_events io"
    using enter_granted [of w io] by auto
  show ?thesis using False
    apply (simp add: Let_def nct6775_find_def new_events_def e)
    apply (simp add: case_prod_beta Let_def trace_simps t1 reg_consts)
    apply (intro conjI impI paired_start)
    apply (simp_all add: exit_events_def)
    done
qed

lemma store_bracket:
  "let r = store_hddsaver (Some val) n d sio w; t = new_events w (snd (snd r)) in
     if foreign_owner w \<or> held w
     then t = [Request_muxed_region (sd_sioreg sio) 2 False] \<and> fst r = Inl EBUSY
     else paired_bracket (sd_sioreg sio) t"
proof (cases "foreign_owner w \<or> held w")
  case True
  then show ?thesis
    by (simp add: store_hddsaver_def enter_busy new_events_def)
next
  case False
  then obtain w1 where e: "superio_enter (sd_sioreg sio) w = (None, w1)"
    and t1: "trace w1 = trace w @ enter_events (sd_sioreg sio)"
    using enter_granted [of w "sd_sioreg sio"] by auto
  show ?thesis using False
    apply (simp add: Let_def store_hddsaver_def new_events_def e)
    apply (simp add: case_prod_beta Let_def trace_simps t1 reg_consts)
    apply (intro conjI impI paired_start)
    apply (simp_all add: exit_events_def)
    done
qed

lemma resume_bracket:
  "let r = hddsaver_resume d w; t = new_events w (snd (snd r)) in
     if foreign_owner w \<or> held w
     then t = [Request_muxed_region (sioreg d) 2 False] \<and> fst r = Some EBUSY
     else paired_bracket (sioreg d) t"
proof (cases "foreign_owner w \<or> held w")
  case True
  then show ?thesis
    by (simp add: hddsaver_resume_def enter_busy new_events_def)
next
  case False
  then obtain w1 where e: "superio_enter (sioreg d) w = (None, w1)"
    and t1: "trace w1 = trace w @ enter_events (sioreg d)"
    using enter_granted [of w "sioreg d"] by auto
  show ?thesis using False
    apply (simp add: Let_def hddsaver_resume_def new_events_def e)
    apply (simp add: case_prod_beta Let_def trace_simps t1 reg_consts split: kinds.splits)
    apply (intro conjI impI paired_start)
    apply (simp_all add: exit_events_def)
    done
qed

lemma probe_bracket:
  "let l = probe_request_loop (devm_request_region_ret env) rs 0 w;
       r = nct6775_probe env rs sio w; t = new_events (snd l) (snd r) in
     if fst l \<noteq> 0 \<and> kzalloc_ok env
     then (if foreign_owner w \<or> held w
           then t = [Request_muxed_region (sd_sioreg sio) 2 False] \<and> fst r = Inl EBUSY
           else paired_bracket (sd_sioreg sio) t)
     else t = []"
  using probe_trace [of env rs sio w] by (auto simp add: new_events_def Let_def)

text \<open>
  Claim C5. Every operation that enters the protocol bracket (\<open>nct6775_find\<close>,
  \<open>store_hddsaver\<close>, \<open>hddsaver_resume\<close>, and \<open>nct6775_probe\<close> once it has its
  region and its memory) either is refused the ports, and then adds the refused request
  and nothing else to the trace (no port access, no exit) and returns \<open>EBUSY\<close>; or adds
  one complete bracket: the granted request and the unlock key, port accesses only, and
  the exit sequence (lock key and release) once, at the end, on every path.
\<close>

theorem bracket_pairing:
  "(let r = nct6775_find io w; t = new_events w (snd r) in
      if foreign_owner w \<or> held w
      then t = [Request_muxed_region io 2 False] \<and> fst r = Inl EBUSY
      else paired_bracket io t) \<and>
   (let r = store_hddsaver (Some val) n d sio w; t = new_events w (snd (snd r)) in
      if foreign_owner w \<or> held w
      then t = [Request_muxed_region (sd_sioreg sio) 2 False] \<and> fst r = Inl EBUSY
      else paired_bracket (sd_sioreg sio) t) \<and>
   (let r = hddsaver_resume d w; t = new_events w (snd (snd r)) in
      if foreign_owner w \<or> held w
      then t = [Request_muxed_region (sioreg d) 2 False] \<and> fst r = Some EBUSY
      else paired_bracket (sioreg d) t) \<and>
   (let l = probe_request_loop (devm_request_region_ret env) rs 0 w;
        r = nct6775_probe env rs sio w; t = new_events (snd l) (snd r) in
      if fst l \<noteq> 0 \<and> kzalloc_ok env
      then (if foreign_owner w \<or> held w
            then t = [Request_muxed_region (sd_sioreg sio) 2 False] \<and> fst r = Inl EBUSY
            else paired_bracket (sd_sioreg sio) t)
      else t = [])"
  using find_bracket [of io w] store_bracket [of val n d sio w] resume_bracket [of d w]
    probe_bracket [of env rs w sio]
  by blast

lemma store_busy:
  "foreign_owner w \<or> held w \<Longrightarrow> store_hddsaver (Some val) n d sio w =
     (Inl EBUSY, d, w\<lparr>trace := trace w @ [Request_muxed_region (sd_sioreg sio) 2 False]\<rparr>)"
  by (simp add: store_hddsaver_def enter_busy)

lemma store_same:
  assumes "\<not> foreign_owner w" "\<not> held w" "val = hddsaver_status d"
  shows "fst (store_hddsaver (Some val) n d sio w) = Inr n"
    and "fst (snd (store_hddsaver (Some val) n d sio w)) = d"
    and "new_events w (snd (snd (store_hddsaver (Some val) n d sio w))) =
           enter_events (sd_sioreg sio) @ exit_events (sd_sioreg sio)"
proof -
  obtain w1 where e: "superio_enter (sd_sioreg sio) w = (None, w1)"
    and t: "trace w1 = trace w @ enter_events (sd_sioreg sio)"
    using assms enter_granted [of w "sd_sioreg sio"] by auto
  show "fst (store_hddsaver (Some val) n d sio w) = Inr n"
    "fst (snd (store_hddsaver (Some val) n d sio w)) = d"
    "new_events w (snd (snd (store_hddsaver (Some val) n d sio w))) =
           enter_events (sd_sioreg sio) @ exit_events (sd_sioreg sio)"
    using assms by (simp_all add: store_hddsaver_def new_events_def e t trace_exit)
qed

lemma store_flip:
  assumes "\<not> foreign_owner w" "\<not> held w" "chip_port w = sd_sioreg sio" "val \<noteq> hddsaver_status d"
  shows "\<exists>w'. store_hddsaver (Some val) n d sio w = (Inr n, d\<lparr>hddsaver_status := val\<rparr>, w')
           \<and> cr_ld w' = (cr_ld w)((NCT6775_LD_GPIO_DATA, NCT6775_REG_CR_GPIO1_DATA) := gpio1_data w XOR 1)
           \<and> cr_global w' = cr_global w \<and> chip_port w' = chip_port w
           \<and> foreign_owner w' = foreign_owner w \<and> \<not> held w'
           \<and> new_events w w' = enter_events (sd_sioreg sio) @
               [Outb 0x07 (sd_sioreg sio), Outb 0x08 (sd_sioreg sio + 1),
                Outb 0xf1 (sd_sioreg sio), Inb (sd_sioreg sio + 1) (gpio1_data w),
                Outb 0xf1 (sd_sioreg sio), Outb (gpio1_data w XOR 1) (sd_sioreg sio + 1)] @
               exit_events (sd_sioreg sio)"
proof -
  obtain w1 where w1: "superio_enter (sd_sioreg sio) w = (None, w1)" "unlocked w1"
    "chip_port w1 = sd_sioreg sio" "cr_global w1 = cr_global w" "cr_ld w1 = cr_ld w"
    "\<not> foreign_owner w1" "trace w1 = trace w @ enter_events (sd_sioreg sio)"
    using enter_free [OF assms(1,2,3)] by blast
  show ?thesis
    using assms w1
    by (simp add: store_hddsaver_def select_unlocked inb_unlocked outb_unlocked exit_unlocked
        chip_data_read_def chip_data_write_def reg_consts gpio1_data_def new_events_def)
qed

lemma store_same_regs:
  assumes "\<not> foreign_owner w" "\<not> held w" "chip_port w = sd_sioreg sio" "val = hddsaver_status d"
  shows "\<exists>w'. store_hddsaver (Some val) n d sio w = (Inr n, d, w')
           \<and> cr_ld w' = cr_ld w \<and> cr_global w' = cr_global w \<and> chip_port w' = chip_port w
           \<and> foreign_owner w' = foreign_owner w \<and> \<not> held w'"
proof -
  obtain w1 where w1: "superio_enter (sd_sioreg sio) w = (None, w1)" "unlocked w1"
    "chip_port w1 = sd_sioreg sio" "cr_global w1 = cr_global w" "cr_ld w1 = cr_ld w"
    "\<not> foreign_owner w1"
    using enter_free [OF assms(1,2,3)] by blast
  show ?thesis
    using assms w1
    by (simp add: store_hddsaver_def exit_unlocked)
qed

subsection \<open>Writing the value the cache already holds\<close>

text \<open>
  Claim C3, as amended. A write of the value that the cache already holds still enters
  the bracket first. When the ports are refused it fails with \<open>EBUSY\<close> after the refused
  request alone; otherwise it returns the byte count and its whole traffic is the unlock
  key sequence followed by the exit sequence: no logical device is selected and no
  register is read or written in between. In both cases the device data (cached status,
  \<open>valid\<close>, \<open>last_updated\<close>, \<open>bank\<close>) is unchanged.
\<close>

theorem noop_write_brackets:
  assumes "val = hddsaver_status d"
  shows "let r = store_hddsaver (Some val) n d sio w; t = new_events w (snd (snd r)) in
           fst (snd r) = d \<and>
           (if foreign_owner w \<or> held w
            then fst r = Inl EBUSY \<and> t = [Request_muxed_region (sd_sioreg sio) 2 False]
            else fst r = Inr n \<and> t = enter_events (sd_sioreg sio) @ exit_events (sd_sioreg sio))"
proof (cases "foreign_owner w \<or> held w")
  case True
  then show ?thesis by (simp add: store_busy new_events_def)
next
  case False
  then show ?thesis using store_same [of w val d n sio] assms by (simp add: Let_def)
qed

theorem noop_write_brackets_witness:
  "False = hddsaver_status unlisted_data \<and>
   (let r = store_hddsaver (Some False) 2 unlisted_data demo_sio demo_hw;
        t = new_events demo_hw (snd (snd r)) in
      fst (snd r) = unlisted_data \<and> fst r = Inr 2 \<and> t = enter_events 0x2e @ exit_events 0x2e)"
proof -
  have h: "False = hddsaver_status unlisted_data" by (simp add: unlisted_data_def)
  from noop_write_brackets [OF h, of 2 demo_sio demo_hw] h show ?thesis
    by (simp add: demo_hw_def demo_sio_def Let_def)
qed

text \<open>
  The claim as the spec states it (no bus traffic at all) fails: on the idle machine, a
  write of the cached value \<open>False\<close> puts seven events on the bus.
\<close>

theorem noop_write_counterexample:
  "\<not> hddsaver_status unlisted_data \<and>
   new_events demo_hw (snd (snd (store_hddsaver (Some False) 2 unlisted_data demo_sio demo_hw)))
     = [Request_muxed_region 0x2e 2 True, Outb 0x87 0x2e, Outb 0x87 0x2e,
        Outb 0xaa 0x2e, Outb 0x02 0x2e, Outb 0x02 0x2f, Release_region 0x2e 2] \<and>
   trace (snd (snd (store_hddsaver (Some False) 2 unlisted_data demo_sio demo_hw)))
     \<noteq> trace demo_hw"
proof -
  have h: "False = hddsaver_status unlisted_data" by (simp add: unlisted_data_def)
  have f: "\<not> foreign_owner demo_hw" "\<not> held demo_hw" by (simp_all add: demo_hw_def)
  have t: "new_events demo_hw
      (snd (snd (store_hddsaver (Some False) 2 unlisted_data demo_sio demo_hw)))
     = enter_events 0x2e @ exit_events 0x2e"
    using store_same(3) [OF f h, of 2 demo_sio] by (simp add: demo_sio_def)
  then have "trace (snd (snd (store_hddsaver (Some False) 2 unlisted_data demo_sio demo_hw)))
     \<noteq> trace demo_hw"
    by (auto simp add: new_events_def enter_events_def)
  with t h show ?thesis by (simp add: enter_events_def exit_events_def)
qed

lemma drop_bit_xor_1: "drop_bit 1 (x XOR 1) = drop_bit 1 x" for x :: u8
  by (rule bit_word_eqI) (simp add: bit_simps)

lemma bit0_xor_1: "bit (x XOR 1) 0 = (\<not> bit x 0)" for x :: u8
  by (simp add: bit_simps)

subsection \<open>The toggle round trip\<close>

text \<open>
  Claim C8. From a state whose cached status is false, on the chip the driver is bound
  to, a write of true followed by a write of false leaves the GPIO1 data register with
  its original byte. Each of the two writes keeps bits 1 to 7; when the ports are free
  both writes succeed and the byte in between differs from the original one in bit 0
  exactly. (When the ports are held by another consumer both writes fail with \<open>EBUSY\<close>
  and the byte is never touched.)
\<close>

theorem toggle_round_trip:
  assumes "chip_port w = sd_sioreg sio" "\<not> hddsaver_status d"
  shows "case store_hddsaver (Some True) n d sio w of (r1, d1, w1) \<Rightarrow>
           (case store_hddsaver (Some False) m d1 sio w1 of (r2, d2, w2) \<Rightarrow>
              gpio1_data w2 = gpio1_data w \<and>
              drop_bit 1 (gpio1_data w1) = drop_bit 1 (gpio1_data w) \<and>
              drop_bit 1 (gpio1_data w2) = drop_bit 1 (gpio1_data w1) \<and>
              (if foreign_owner w \<or> held w
               then r1 = Inl EBUSY \<and> r2 = Inl EBUSY \<and> gpio1_data w1 = gpio1_data w
               else r1 = Inr n \<and> r2 = Inr m \<and> gpio1_data w1 = gpio1_data w XOR 1 \<and>
                    bit (gpio1_data w1) 0 \<noteq> bit (gpio1_data w) 0 \<and>
                    hddsaver_status d1 \<and> \<not> hddsaver_status d2))"
proof (cases "foreign_owner w \<or> held w")
  case True
  then show ?thesis
    by (simp add: store_busy gpio1_data_def)
next
  case False
  then obtain w1 where s1: "store_hddsaver (Some True) n d sio w =
        (Inr n, d\<lparr>hddsaver_status := True\<rparr>, w1)"
    and w1: "cr_ld w1 = (cr_ld w)((NCT6775_LD_GPIO_DATA, NCT6775_REG_CR_GPIO1_DATA) := gpio1_data w XOR 1)"
      "chip_port w1 = chip_port w" "foreign_owner w1 = foreign_owner w" "\<not> held w1"
    using store_flip [of w sio True d n] assms by auto
  obtain w2 where s2: "store_hddsaver (Some False) m (d\<lparr>hddsaver_status := True\<rparr>) sio w1 =
        (Inr m, d\<lparr>hddsaver_status := True, hddsaver_status := False\<rparr>, w2)"
    and w2: "cr_ld w2 = (cr_ld w1)((NCT6775_LD_GPIO_DATA, NCT6775_REG_CR_GPIO1_DATA) := gpio1_data w1 XOR 1)"
    using store_flip [of w1 sio False "d\<lparr>hddsaver_status := True\<rparr>" m] assms w1 False by auto
  show ?thesis using False
    by (simp add: s1 s2 w1 w2 gpio1_data_def drop_bit_xor_1 bit0_xor_1 bit.xor_self
        xor.assoc)
qed

theorem toggle_round_trip_witness:
  "chip_port demo_hw = sd_sioreg demo_sio \<and> \<not> hddsaver_status unlisted_data \<and>
   gpio1_data demo_hw = 0x5b \<and>
   (case store_hddsaver (Some True) 2 unlisted_data demo_sio demo_hw of (r1, d1, w1) \<Rightarrow>
      (case store_hddsaver (Some False) 2 d1 demo_sio w1 of (r2, d2, w2) \<Rightarrow>
         r1 = Inr 2 \<and> r2 = Inr 2 \<and> gpio1_data w1 = 0x5a \<and> gpio1_data w2 = 0x5b))"
proof -
  have h: "chip_port demo_hw = sd_sioreg demo_sio" "\<not> hddsaver_status unlisted_data"
    by (simp_all add: demo_hw_def demo_sio_def unlisted_data_def)
  have g: "gpio1_data demo_hw = 0x5b" "\<not> foreign_owner demo_hw" "\<not> held demo_hw"
    by (simp_all add: gpio1_data_def demo_hw_def reg_consts)
  from toggle_round_trip [OF h, of 2 2] h g show ?thesis
    by (auto split: prod.splits)
qed


subsection \<open>Chip identification\<close>

lemma uint_eq_0: "(uint x = 0) = (x = 0)" for x :: u16
  by (simp add: unsigned_eq_0_iff)

lemma find_result:
  assumes "\<not> foreign_owner w" "\<not> held w" "chip_port w = io"
  shows "fst (nct6775_find io w) =
     (if devid w AND SIO_ID_MASK \<noteq> SIO_NCT6791_ID then Inl ENODEV
      else if hwm_base w AND IOREGION_ALIGNMENT = 0 then Inl ENODEV
      else Inr (uint (hwm_base w AND IOREGION_ALIGNMENT),
                \<lparr>sd_sioreg = io, sd_kind = nct6791\<rparr>))"
proof -
  obtain w1 where w1: "superio_enter io w = (None, w1)" "unlocked w1"
    "chip_port w1 = io" "cr_global w1 = cr_global w" "cr_ld w1 = cr_ld w"
    using enter_free [OF assms] by blast
  show ?thesis
    using w1
    by (simp add: nct6775_find_def select_unlocked inb_unlocked chip_data_read_def
        reg_consts devid_def hwm_base_def uint_eq_0 Let_def case_prod_beta)
qed

lemma find_mismatch:
  assumes "\<not> foreign_owner w" "\<not> held w" "chip_port w = io"
    and "devid w AND SIO_ID_MASK \<noteq> SIO_NCT6791_ID"
  shows "\<exists>w'. nct6775_find io w = (Inl ENODEV, w') \<and> cr_global w' = cr_global w
           \<and> cr_ld w' = cr_ld w \<and> ldn w' = ldn w
           \<and> new_events w w' = enter_events io @
               [Outb 0x20 io, Inb (io + 1) (cr_global w 0x20),
                Outb 0x21 io, Inb (io + 1) (cr_global w 0x21)] @ exit_events io"
proof -
  obtain w1 where w1: "superio_enter io w = (None, w1)" "unlocked w1"
    "chip_port w1 = io" "cr_global w1 = cr_global w" "cr_ld w1 = cr_ld w" "ldn w1 = ldn w"
    "trace w1 = trace w @ enter_events io"
    using enter_free [OF assms(1,2,3)] by blast
  show ?thesis
    using w1 assms(4)
    by (simp add: nct6775_find_def inb_unlocked exit_unlocked chip_data_read_def
        reg_consts devid_def new_events_def)
qed

lemma find_busy:
  "foreign_owner w \<or> held w \<Longrightarrow>
   nct6775_find io w = (Inl EBUSY, w\<lparr>trace := trace w @ [Request_muxed_region io 2 False]\<rparr>)"
  by (simp add: nct6775_find_def enter_busy)

text \<open>
  Claim C7, as amended. \<open>nct6775_find\<close> first enters the bracket: when the ports are
  refused it fails with \<open>EBUSY\<close> and reads nothing. Once the bracket is entered on the
  chip at \<open>sioaddr\<close>, it fails with \<open>ENODEV\<close> exactly when the device ID under the ID
  mask is not the NCT6791 ID or the base address of the hardware monitor, masked to its
  alignment, is zero. On an ID that does not match it reads the two ID bytes and leaves:
  no register is written (neither the forced enable nor the I/O-space unlock). On
  success it returns the masked base address, which is not zero.
\<close>

theorem chip_identification:
  assumes "chip_port w = io"
  shows "if foreign_owner w \<or> held w
         then nct6775_find io w =
                (Inl EBUSY, w\<lparr>trace := trace w @ [Request_muxed_region io 2 False]\<rparr>)
         else
           ((fst (nct6775_find io w) = Inl ENODEV) =
              (devid w AND SIO_ID_MASK \<noteq> SIO_NCT6791_ID \<or>
               hwm_base w AND IOREGION_ALIGNMENT = 0)) \<and>
           (devid w AND SIO_ID_MASK \<noteq> SIO_NCT6791_ID \<longrightarrow>
              new_events w (snd (nct6775_find io w)) = enter_events io @
                 [Outb 0x20 io, Inb (io + 1) (cr_global w 0x20),
                  Outb 0x21 io, Inb (io + 1) (cr_global w 0x21)] @ exit_events io \<and>
              cr_global (snd (nct6775_find io w)) = cr_global w \<and>
              cr_ld (snd (nct6775_find io w)) = cr_ld w) \<and>
           (\<forall>a sd. fst (nct6775_find io w) = Inr (a, sd) \<longrightarrow>
              a = uint (hwm_base w AND IOREGION_ALIGNMENT) \<and> 0 < a \<and>
              sd = \<lparr>sd_sioreg = io, sd_kind = nct6791\<rparr>)"
proof (cases "foreign_owner w \<or> held w")
  case True
  then show ?thesis by (simp add: find_busy)
next
  case False
  then have free: "\<not> foreign_owner w" "\<not> held w" by auto
  note h = free assms
  have 1: "(fst (nct6775_find io w) = Inl ENODEV) =
           (devid w AND SIO_ID_MASK \<noteq> SIO_NCT6791_ID \<or> hwm_base w AND IOREGION_ALIGNMENT = 0)"
    by (simp add: find_result [OF h])
  have 2: "devid w AND SIO_ID_MASK \<noteq> SIO_NCT6791_ID \<longrightarrow>
              new_events w (snd (nct6775_find io w)) = enter_events io @
                 [Outb 0x20 io, Inb (io + 1) (cr_global w 0x20),
                  Outb 0x21 io, Inb (io + 1) (cr_global w 0x21)] @ exit_events io \<and>
              cr_global (snd (nct6775_find io w)) = cr_global w \<and>
              cr_ld (snd (nct6775_find io w)) = cr_ld w"
  proof
    assume m: "devid w AND SIO_ID_MASK \<noteq> SIO_NCT6791_ID"
    from find_mismatch [OF h m]
    show "new_events w (snd (nct6775_find io w)) = enter_events io @
                 [Outb 0x20 io, Inb (io + 1) (cr_global w 0x20),
                  Outb 0x21 io, Inb (io + 1) (cr_global w 0x21)] @ exit_events io \<and>
              cr_global (snd (nct6775_find io w)) = cr_global w \<and>
              cr_ld (snd (nct6775_find io w)) = cr_ld w"
      by auto
  qed
  have 3: "\<forall>a sd. fst (nct6775_find io w) = Inr (a, sd) \<longrightarrow>
              a = uint (hwm_base w AND IOREGION_ALIGNMENT) \<and> 0 < a \<and>
              sd = \<lparr>sd_sioreg = io, sd_kind = nct6791\<rparr>"
  proof (intro allI impI)
    fix a sd
    assume r: "fst (nct6775_find io w) = Inr (a, sd)"
    then have e: "a = uint (hwm_base w AND IOREGION_ALIGNMENT)"
      "sd = \<lparr>sd_sioreg = io, sd_kind = nct6791\<rparr>"
      "hwm_base w AND IOREGION_ALIGNMENT \<noteq> 0"
      by (auto simp add: find_result [OF h] split: if_splits)
    have "uint (hwm_base w AND IOREGION_ALIGNMENT) \<noteq> 0" using e(3) by (simp add: uint_eq_0)
    moreover have "0 \<le> uint (hwm_base w AND IOREGION_ALIGNMENT)" by simp
    ultimately have "0 < a" using e(1) by linarith
    with e show "a = uint (hwm_base w AND IOREGION_ALIGNMENT) \<and> 0 < a \<and>
              sd = \<lparr>sd_sioreg = io, sd_kind = nct6791\<rparr>" by simp
  qed
  from False 1 2 3 show ?thesis by simp
qed

lemma devid_demo: "devid demo_hw = 0xc803" "devid nct6796_hw = 0xd423"
  "hwm_base demo_hw = 0x0290" "devid held_nct6796_hw = 0xd423"
  by (simp_all add: devid_def hwm_base_def demo_hw_def nct6796_hw_def held_nct6796_hw_def
      read_u16_def reg_consts)

theorem chip_identification_witness:
  "chip_port demo_hw = 0x2e \<and> \<not> foreign_owner demo_hw \<and> \<not> held demo_hw \<and>
   fst (nct6775_find 0x2e demo_hw) = Inr (0x290, demo_sio) \<and>
   devid nct6796_hw AND SIO_ID_MASK \<noteq> SIO_NCT6791_ID \<and>
   fst (nct6775_find 0x2e nct6796_hw) = Inl ENODEV \<and>
   new_events nct6796_hw (snd (nct6775_find 0x2e nct6796_hw)) =
     enter_events 0x2e @ [Outb 0x20 0x2e, Inb 0x2f 0xd4, Outb 0x21 0x2e, Inb 0x2f 0x23] @
     exit_events 0x2e \<and>
   foreign_owner held_nct6796_hw \<and>
   nct6775_find 0x2e held_nct6796_hw =
     (Inl EBUSY,
      held_nct6796_hw\<lparr>trace := trace held_nct6796_hw @ [Request_muxed_region 0x2e 2 False]\<rparr>)"
proof -
  have h: "\<not> foreign_owner demo_hw" "\<not> held demo_hw" "chip_port demo_hw = 0x2e"
    by (simp_all add: demo_hw_def)
  have h': "\<not> foreign_owner nct6796_hw" "\<not> held nct6796_hw" "chip_port nct6796_hw = 0x2e"
    by (simp_all add: demo_hw_def nct6796_hw_def)
  have h'': "foreign_owner held_nct6796_hw" "chip_port held_nct6796_hw = 0x2e"
    by (simp_all add: demo_hw_def nct6796_hw_def held_nct6796_hw_def)
  have m: "devid nct6796_hw AND SIO_ID_MASK \<noteq> SIO_NCT6791_ID"
    "devid demo_hw AND SIO_ID_MASK = SIO_NCT6791_ID"
    "hwm_base demo_hw AND IOREGION_ALIGNMENT = 0x290"
    by (simp_all add: devid_demo SIO_ID_MASK_def SIO_NCT6791_ID_def IOREGION_ALIGNMENT_def)
  have g: "cr_global nct6796_hw 0x20 = 0xd4" "cr_global nct6796_hw 0x21 = 0x23"
    by (simp_all add: nct6796_hw_def)
  have s: "fst (nct6775_find 0x2e demo_hw) = Inr (0x290, demo_sio)"
    using find_result [OF h] m by (simp add: demo_sio_def)
  from chip_identification [OF h'(3)] chip_identification [OF h(3)]
       chip_identification [OF h''(2)] h h' h'' m g s
  show ?thesis by simp
qed

text \<open>
  The claim as the spec states it (\<open>ENODEV\<close> exactly when the ID does not match or the
  base address is zero) fails while another driver holds the ports: the chip's ID is
  not the supported one, and \<open>nct6775_find\<close> answers \<open>EBUSY\<close>, not \<open>ENODEV\<close>.
\<close>

theorem chip_identification_counterexample:
  "devid held_nct6796_hw AND SIO_ID_MASK \<noteq> SIO_NCT6791_ID \<and>
   fst (nct6775_find 0x2e held_nct6796_hw) = Inl EBUSY \<and>
   fst (nct6775_find 0x2e held_nct6796_hw) \<noteq> Inl ENODEV"
proof -
  have "foreign_owner held_nct6796_hw" by (simp add: held_nct6796_hw_def)
  then have "fst (nct6775_find 0x2e held_nct6796_hw) = Inl EBUSY"
    by (simp add: find_busy)
  moreover have "devid held_nct6796_hw AND SIO_ID_MASK \<noteq> SIO_NCT6791_ID"
    by (simp add: devid_demo SIO_ID_MASK_def SIO_NCT6791_ID_def)
  ultimately show ?thesis by simp
qed

subsection \<open>The cached status and the GPIO bit\<close>

lemma probe_Inr:
  assumes "fst (nct6775_probe env rs sio w) = Inr d"
  shows "fst (probe_request_loop (devm_request_region_ret env) rs 0 w) \<noteq> 0 \<and> kzalloc_ok env \<and>
         sysfs_create_group_ret env = 0 \<and> PTR_ERR_OR_ZERO (hwmon_dev env) = 0 \<and>
         \<not> foreign_owner w \<and> \<not> held w"
proof -
  obtain b t where l: "probe_request_loop (devm_request_region_ret env) rs 0 w =
      (b, w\<lparr>trace := t\<rparr>)"
    using loop_frame [of "devm_request_region_ret env" rs 0 w]
    by (cases "probe_request_loop (devm_request_region_ret env) rs 0 w") auto
  have b: "b \<noteq> 0" "kzalloc_ok env"
    using assms by (auto simp add: nct6775_probe_def l split: if_splits)
  have f: "\<not> (foreign_owner w \<or> held w)"
  proof
    assume "foreign_owner w \<or> held w"
    then show False using assms b by (simp add: nct6775_probe_def l enter_busy)
  qed
  then obtain w1 where e: "superio_enter (sd_sioreg sio) (w\<lparr>trace := t\<rparr>) = (None, w1)"
    using enter_granted [of "w\<lparr>trace := t\<rparr>" "sd_sioreg sio"] by auto
  have "sysfs_create_group_ret env = 0 \<and> PTR_ERR_OR_ZERO (hwmon_dev env) = 0"
    using assms b
    by (auto simp add: nct6775_probe_def l e Let_def case_prod_beta split: if_splits)
  with b f show ?thesis by (simp add: l)
qed

lemma probe_never_remembers:
  assumes "fst (nct6775_probe env rs sio w) = Inr d"
  shows "sio_reg_enable d = 0"
proof -
  obtain w' where "nct6775_probe env rs sio w = (Inr d, w')"
    using assms by (cases "nct6775_probe env rs sio w") simp
  then show ?thesis
    by (auto simp add: nct6775_probe_def kzalloc_data_def Let_def
        split: prod.splits bool.splits option.splits if_splits kinds.splits)
qed

lemma probe_cache:
  assumes "fst (nct6775_probe env rs sio w) = Inr d" "have_hddsaver d"
    "chip_port w = sd_sioreg sio"
  shows "cache_matches sio d (snd (nct6775_probe env rs sio w))"
proof -
  have c: "fst (probe_request_loop (devm_request_region_ret env) rs 0 w) \<noteq> 0" "kzalloc_ok env"
         "sysfs_create_group_ret env = 0" "PTR_ERR_OR_ZERO (hwmon_dev env) = 0"
         "\<not> foreign_owner w" "\<not> held w"
    using probe_Inr [OF assms(1)] by auto
  from probe_ok [OF c assms(3)] assms show ?thesis
    by (auto simp add: cache_matches_def gpio1_data_def)
qed

lemma store_cache:
  assumes "cache_matches sio d w"
  shows "cache_matches sio (fst (snd (store_hddsaver p n d sio w)))
           (snd (snd (store_hddsaver p n d sio w)))"
proof (cases p)
  case None
  then show ?thesis using assms by (simp add: store_hddsaver_def)
next
  case (Some val)
  show ?thesis
  proof (cases "foreign_owner w \<or> held w")
    case True
    then show ?thesis
      using assms by (simp add: Some store_busy cache_matches_def gpio1_data_def)
  next
    case free: False
    show ?thesis
    proof (cases "val = hddsaver_status d")
      case True
      with store_same_regs [of w sio val d n] free assms show ?thesis
        by (auto simp add: Some cache_matches_def gpio1_data_def)
    next
      case False
      with store_flip [of w sio val d n] free assms show ?thesis
        by (auto simp add: Some cache_matches_def gpio1_data_def bit0_xor_1)
    qed
  qed
qed

lemma step_cache:
  "cache_matches sio d w \<Longrightarrow>
   cache_matches sio (fst (surface_step HZ sio x (d, w))) (snd (surface_step HZ sio x (d, w)))"
proof (cases x)
  case (Read_toggle j)
  assume "cache_matches sio d w"
  then show ?thesis
    by (simp add: Read_toggle show_hddsaver_def nct6775_update_device_def cache_matches_def
        Let_def)
next
  case (Write_toggle p n)
  assume "cache_matches sio d w"
  then show ?thesis using store_cache [of sio d w p n] by (simp add: Write_toggle)
next
  case (Contention b)
  assume "cache_matches sio d w"
  then show ?thesis by (simp add: Contention cache_matches_def gpio1_data_def)
qed

lemma run_cache:
  "cache_matches sio (fst s) (snd s) \<Longrightarrow>
   cache_matches sio (fst (run_surface HZ sio ops s)) (snd (run_surface HZ sio ops s))"
proof (induction ops arbitrary: s)
  case Nil
  then show ?case by simp
next
  case (Cons x xs)
  have "cache_matches sio (fst (surface_step HZ sio x s)) (snd (surface_step HZ sio x s))"
    using step_cache [of sio "fst s" "snd s" HZ x] Cons.prems by simp
  then show ?case using Cons.IH [of "surface_step HZ sio x s"] by simp
qed

lemma listed_loop:
  "fst (probe_request_loop (devm_request_region_ret listed_env) rs 0 w) \<noteq> 0"
  by (simp add: loop_first_success [of 2] listed_env_def MAXRETRIES_def ptr_to_int_demo)

lemma listed_probe:
  "fst (nct6775_probe listed_env 0x295 demo_sio demo_hw) = Inr listed_data"
  "cr_ld (snd (nct6775_probe listed_env 0x295 demo_sio demo_hw)) = cr_ld demo_hw"
  "cr_global (snd (nct6775_probe listed_env 0x295 demo_sio demo_hw)) = cr_global demo_hw"
  "chip_port (snd (nct6775_probe listed_env 0x295 demo_sio demo_hw)) = 0x2e"
  "\<not> foreign_owner (snd (nct6775_probe listed_env 0x295 demo_sio demo_hw))"
  "\<not> held (snd (nct6775_probe listed_env 0x295 demo_sio demo_hw))"
proof -
  have e: "kzalloc_ok listed_env" "sysfs_create_group_ret listed_env = 0"
    "PTR_ERR_OR_ZERO (hwmon_dev listed_env) = 0"
    by (simp_all add: listed_env_def PTR_ERR_OR_ZERO_def)
  have w: "\<not> foreign_owner demo_hw" "\<not> held demo_hw" "chip_port demo_hw = sd_sioreg demo_sio"
    by (simp_all add: demo_hw_def demo_sio_def)
  have a: "on_allow_list (board_vendor listed_env) (board_name listed_env)"
    by (simp add: listed_env_def on_allow_list_def)
  have b: "bit (cr_global demo_hw 0x2a) 6" "bit (gpio1_data demo_hw) 0"
    by (simp_all add: demo_hw_def gpio1_data_def reg_consts bit_numeral_simps)
  from probe_ok [OF listed_loop e w, of "0x295"] a b
  show "fst (nct6775_probe listed_env 0x295 demo_sio demo_hw) = Inr listed_data"
    "cr_ld (snd (nct6775_probe listed_env 0x295 demo_sio demo_hw)) = cr_ld demo_hw"
    "cr_global (snd (nct6775_probe listed_env 0x295 demo_sio demo_hw)) = cr_global demo_hw"
    "chip_port (snd (nct6775_probe listed_env 0x295 demo_sio demo_hw)) = 0x2e"
    "\<not> foreign_owner (snd (nct6775_probe listed_env 0x295 demo_sio demo_hw))"
    "\<not> held (snd (nct6775_probe listed_env 0x295 demo_sio demo_hw))"
    by (auto simp add: listed_data_def unlisted_data_def kzalloc_data_def demo_sio_def
        demo_hw_def NCT6775_REG_CONFIG_def)
qed

lemma probe_keeps_gpio:
  assumes "fst (nct6775_probe env rs sio w) = Inr d" "chip_port w = sd_sioreg sio"
  shows "gpio1_data (snd (nct6775_probe env rs sio w)) = gpio1_data w"
proof -
  have c: "fst (probe_request_loop (devm_request_region_ret env) rs 0 w) \<noteq> 0" "kzalloc_ok env"
         "sysfs_create_group_ret env = 0" "PTR_ERR_OR_ZERO (hwmon_dev env) = 0"
         "\<not> foreign_owner w" "\<not> held w"
    using probe_Inr [OF assms(1)] by auto
  from probe_ok [OF c assms(2)] show ?thesis
    by (auto simp add: gpio1_data_def)
qed

text \<open>
  What one write does to a state in which the cache agrees with the chip. A write is
  effective when its text parses to the value the cache does not hold and the ports are
  free.
\<close>

lemma store_step:
  assumes "cache_matches sio d w"
  shows "case store_hddsaver p n d sio w of
           (r, d', w') \<Rightarrow>
             if p = Some (\<not> hddsaver_status d) \<and> \<not> foreign_owner w
             then r = Inr n \<and> hddsaver_status d' = (\<not> hddsaver_status d) \<and>
                  gpio1_data w' = gpio1_data w XOR 1 \<and>
                  bit (gpio1_data w') 0 = (\<not> bit (gpio1_data w) 0)
             else hddsaver_status d' = hddsaver_status d \<and> gpio1_data w' = gpio1_data w"
proof (cases "p = Some (\<not> hddsaver_status d) \<and> \<not> foreign_owner w")
  case True
  then have v: "(\<not> hddsaver_status d) \<noteq> hddsaver_status d" "\<not> foreign_owner w"
    "p = Some (\<not> hddsaver_status d)" by auto
  have c: "\<not> held w" "chip_port w = sd_sioreg sio"
    using assms by (simp_all add: cache_matches_def)
  from store_flip [OF v(2) c v(1), of n] True show ?thesis
    by (auto simp add: gpio1_data_def bit0_xor_1)
next
  case False
  show ?thesis
  proof (cases p)
    case None
    then show ?thesis using False by (simp add: store_hddsaver_def)
  next
    case (Some val)
    show ?thesis
    proof (cases "foreign_owner w \<or> held w")
      case True
      then show ?thesis using False by (simp add: Some store_busy gpio1_data_def)
    next
      case free: False
      then have "val = hddsaver_status d" using False Some by auto
      with store_same_regs [of w sio val d n] free assms False show ?thesis
        by (auto simp add: Some cache_matches_def gpio1_data_def)
    qed
  qed
qed

text \<open>
  Claim C10. After a successful probe that found the capability, on the chip the driver
  is bound to, the probe has set the cached \<open>hddsaver_status\<close> to bit 0 of the GPIO1
  data register, which it leaves as it was. After every sequence of reads and writes of
  the attribute (writes of any text, parsable or not, with the ports free or held by
  another consumer in between) the cache still equals that bit, and the next write does
  one of two things: an effective write (the other value, ports free) succeeds, flips
  bit 0 of the register and sets the cache to the desired value in the same step; any
  other write leaves both the register and the cache as they are. Nothing but the
  driver writes the register.
\<close>

theorem cache_coherent:
  assumes "fst (nct6775_probe env rs sio w) = Inr d" "have_hddsaver d"
    "chip_port w = sd_sioreg sio"
  shows "hddsaver_status d = bit (gpio1_data w) 0 \<and>
         gpio1_data (snd (nct6775_probe env rs sio w)) = gpio1_data w \<and>
         (case run_surface HZ sio ops (d, snd (nct6775_probe env rs sio w)) of
            (d', w') \<Rightarrow>
              hddsaver_status d' = bit (gpio1_data w') 0 \<and>
              (case store_hddsaver p n d' sio w' of
                 (r, d'', w'') \<Rightarrow>
                   if p = Some (\<not> hddsaver_status d') \<and> \<not> foreign_owner w'
                   then r = Inr n \<and> hddsaver_status d'' = (\<not> hddsaver_status d') \<and>
                        gpio1_data w'' = gpio1_data w' XOR 1 \<and>
                        bit (gpio1_data w'') 0 = (\<not> bit (gpio1_data w') 0)
                   else hddsaver_status d'' = hddsaver_status d' \<and>
                        gpio1_data w'' = gpio1_data w'))"
proof -
  let ?s = "run_surface HZ sio ops (d, snd (nct6775_probe env rs sio w))"
  have p: "cache_matches sio d (snd (nct6775_probe env rs sio w))"
    by (rule probe_cache [OF assms])
  have k: "gpio1_data (snd (nct6775_probe env rs sio w)) = gpio1_data w"
    by (rule probe_keeps_gpio [OF assms(1,3)])
  have r: "cache_matches sio (fst ?s) (snd ?s)"
    using p run_cache [of sio "(d, snd (nct6775_probe env rs sio w))" HZ ops] by simp
  have "hddsaver_status d = bit (gpio1_data w) 0"
    using p k by (simp add: cache_matches_def)
  moreover have "hddsaver_status (fst ?s) = bit (gpio1_data (snd ?s)) 0"
    using r by (simp add: cache_matches_def)
  moreover note store_step [OF r, of p n] k
  ultimately show ?thesis by (simp add: case_prod_beta)
qed

lemma owner_after_contention:
  "foreign_owner (snd (surface_step HZ sio (Contention b) s)) = b"
  by (cases s) simp

lemma owner_after_unparsed:
  "foreign_owner (snd (surface_step HZ sio (Write_toggle None k) s)) = foreign_owner (snd s)"
  by (cases s) (simp add: store_hddsaver_def)

theorem cache_coherent_witness:
  "fst (nct6775_probe listed_env 0x295 demo_sio demo_hw) = Inr listed_data \<and>
   have_hddsaver listed_data \<and> chip_port demo_hw = sd_sioreg demo_sio \<and>
   hddsaver_status listed_data \<and> gpio1_data demo_hw = 0x5b \<and>
   gpio1_data (snd (nct6775_probe listed_env 0x295 demo_sio demo_hw)) = 0x5b \<and>
   (case run_surface 250 demo_sio []
           (listed_data, snd (nct6775_probe listed_env 0x295 demo_sio demo_hw)) of
      (d', w') \<Rightarrow>
        (case store_hddsaver (Some False) 2 d' demo_sio w' of
           (r, d'', w'') \<Rightarrow>
              r = Inr 2 \<and> \<not> hddsaver_status d'' \<and> gpio1_data w'' = 0x5a)) \<and>
   (case run_surface 250 demo_sio
           [Write_toggle (Some False) 2, Read_toggle 5000, Contention True,
            Write_toggle (Some True) 2, Contention False, Write_toggle None 3]
           (listed_data, snd (nct6775_probe listed_env 0x295 demo_sio demo_hw)) of
      (d', w') \<Rightarrow>
        hddsaver_status d' = bit (gpio1_data w') 0 \<and>
        (case store_hddsaver (Some (\<not> hddsaver_status d')) 2 d' demo_sio w' of
           (r, d'', w'') \<Rightarrow>
              r = Inr 2 \<and> hddsaver_status d'' = (\<not> hddsaver_status d') \<and>
              gpio1_data w'' = gpio1_data w' XOR 1))"
proof -
  let ?w = "snd (nct6775_probe listed_env 0x295 demo_sio demo_hw)"
  let ?ops = "[Write_toggle (Some False) 2, Read_toggle 5000, Contention True,
            Write_toggle (Some True) 2, Contention False, Write_toggle None 3]"
  let ?s = "run_surface 250 demo_sio ?ops (listed_data, ?w)"
  have h: "have_hddsaver listed_data" "chip_port demo_hw = sd_sioreg demo_sio"
    "hddsaver_status listed_data"
    by (simp_all add: listed_data_def demo_hw_def demo_sio_def)
  have g: "gpio1_data demo_hw = 0x5b"
    by (simp add: gpio1_data_def demo_hw_def reg_consts)
  have f: "\<not> foreign_owner ?w" by (rule listed_probe(5))
  note a = cache_coherent [OF listed_probe(1) h(1,2), where HZ = 250 and ops = "[]"
             and p = "Some False" and n = 2]
  have 1: "case run_surface 250 demo_sio [] (listed_data, ?w) of
      (d', w') \<Rightarrow>
        (case store_hddsaver (Some False) 2 d' demo_sio w' of
           (r, d'', w'') \<Rightarrow>
              r = Inr 2 \<and> \<not> hddsaver_status d'' \<and> gpio1_data w'' = 0x5a)"
    using a h g f by (simp add: case_prod_beta)
  have fo: "\<not> foreign_owner (snd ?s)"
    by (simp add: owner_after_unparsed owner_after_contention)
  obtain d' w' where s: "?s = (d', w')" by (cases ?s)
  have fo': "\<not> foreign_owner w'" using fo unfolding s by simp
  note b = cache_coherent [OF listed_probe(1) h(1,2), where HZ = 250 and ops = ?ops
             and p = "Some (\<not> hddsaver_status d')" and n = 2, unfolded s prod.case]
  have 2: "case ?s of
      (d', w') \<Rightarrow>
        hddsaver_status d' = bit (gpio1_data w') 0 \<and>
        (case store_hddsaver (Some (\<not> hddsaver_status d')) 2 d' demo_sio w' of
           (r, d'', w'') \<Rightarrow>
              r = Inr 2 \<and> hddsaver_status d'' = (\<not> hddsaver_status d') \<and>
              gpio1_data w'' = gpio1_data w' XOR 1)"
    unfolding s prod.case
    using b fo' by (cases "store_hddsaver (Some (\<not> hddsaver_status d')) 2 d' demo_sio w'") auto
  from a 1 2 listed_probe(1) h g show ?thesis
    by (simp del: run_surface.simps)
qed

subsection \<open>What resume does, and the probe on an unlisted board\<close>

lemma resume_result:
  assumes "\<not> foreign_owner w" "\<not> held w" "chip_port w = sioreg d"
  shows "\<exists>w'. hddsaver_resume d w = (None, d\<lparr>bank := 0xff, valid := False\<rparr>, w')
           \<and> hwm_enable w' = sio_reg_enable d
           \<and> new_events w w' = enter_events (sioreg d) @
               [Outb 0x07 (sioreg d), Outb 0x0b (sioreg d + 1),
                Outb 0x30 (sioreg d), Inb (sioreg d + 1) (hwm_enable w)] @
               (if hwm_enable w \<noteq> sio_reg_enable d
                then [Outb 0x30 (sioreg d), Outb (sio_reg_enable d) (sioreg d + 1)] else []) @
               [Outb 0x28 (sioreg d), Inb (sioreg d + 1) (cr_global w 0x28)] @
               (if cr_global w 0x28 AND 0x10 \<noteq> 0
                then [Outb 0x28 (sioreg d), Outb (cr_global w 0x28 AND NOT 0x10) (sioreg d + 1)]
                else []) @
               exit_events (sioreg d)"
proof -
  obtain w1 where w1: "superio_enter (sioreg d) w = (None, w1)" "unlocked w1"
    "chip_port w1 = sioreg d" "cr_global w1 = cr_global w" "cr_ld w1 = cr_ld w"
    "trace w1 = trace w @ enter_events (sioreg d)"
    using enter_free [OF assms] by blast
  show ?thesis
    using w1
    by (cases "kind d")
       (simp add: hddsaver_resume_def nct6791_enable_io_mapping_def select_unlocked
        inb_unlocked outb_unlocked exit_unlocked chip_data_read_def chip_data_write_def
        reg_consts hwm_enable_def new_events_def Let_def)
qed

lemma unlisted_probe:
  "fst (nct6775_probe unlisted_env 0x295 demo_sio demo_hw) = Inr unlisted_data"
  "cr_ld (snd (nct6775_probe unlisted_env 0x295 demo_sio demo_hw)) = cr_ld demo_hw"
  "chip_port (snd (nct6775_probe unlisted_env 0x295 demo_sio demo_hw)) = 0x2e"
  "\<not> foreign_owner (snd (nct6775_probe unlisted_env 0x295 demo_sio demo_hw))"
  "\<not> held (snd (nct6775_probe unlisted_env 0x295 demo_sio demo_hw))"
proof -
  have l: "fst (probe_request_loop (devm_request_region_ret unlisted_env) 0x295 0 demo_hw) \<noteq> 0"
    by (simp add: loop_first_success [of 0] unlisted_env_def MAXRETRIES_def ptr_to_int_demo)
  have e: "kzalloc_ok unlisted_env" "sysfs_create_group_ret unlisted_env = 0"
    "PTR_ERR_OR_ZERO (hwmon_dev unlisted_env) = 0"
    by (simp_all add: unlisted_env_def PTR_ERR_OR_ZERO_def)
  have w: "\<not> foreign_owner demo_hw" "\<not> held demo_hw" "chip_port demo_hw = sd_sioreg demo_sio"
    by (simp_all add: demo_hw_def demo_sio_def)
  have a: "\<not> on_allow_list (board_vendor unlisted_env) (board_name unlisted_env)"
    by (simp add: unlisted_env_def on_allow_list_def)
  from probe_ok [OF l e w] a
  show "fst (nct6775_probe unlisted_env 0x295 demo_sio demo_hw) = Inr unlisted_data"
    "cr_ld (snd (nct6775_probe unlisted_env 0x295 demo_sio demo_hw)) = cr_ld demo_hw"
    "chip_port (snd (nct6775_probe unlisted_env 0x295 demo_sio demo_hw)) = 0x2e"
    "\<not> foreign_owner (snd (nct6775_probe unlisted_env 0x295 demo_sio demo_hw))"
    "\<not> held (snd (nct6775_probe unlisted_env 0x295 demo_sio demo_hw))"
    by (auto simp add: unlisted_data_def kzalloc_data_def demo_sio_def
        demo_hw_def NCT6775_REG_CONFIG_def)
qed

subsection \<open>A write on a board without the capability\<close>

text \<open>
  Claim C1 says that, while \<open>have_hddsaver\<close> is false, a write of any parsable value
  has no hardware effect and leaves the cached status false. \<open>store_hddsaver\<close> never
  looks at \<open>have_hddsaver\<close>: on the data that the probe leaves on an unlisted board
  (capability absent, status false) a write of true selects the GPIO logical device,
  reads the GPIO1 data register, writes it back with bit 0 flipped (\<open>0x5b\<close> becomes
  \<open>0x5a\<close>) and sets the cached status.
\<close>

theorem unlisted_write_toggles_gpio:
  "\<not> on_allow_list (board_vendor unlisted_env) (board_name unlisted_env) \<and>
   fst (nct6775_probe unlisted_env 0x295 demo_sio demo_hw) = Inr unlisted_data \<and>
   \<not> have_hddsaver unlisted_data \<and> \<not> hddsaver_status unlisted_data \<and>
   (let w = snd (nct6775_probe unlisted_env 0x295 demo_sio demo_hw);
        r = store_hddsaver (Some True) 2 unlisted_data demo_sio w in
      gpio1_data w = 0x5b \<and> fst r = Inr 2 \<and> hddsaver_status (fst (snd r)) \<and>
      gpio1_data (snd (snd r)) = 0x5a \<and>
      new_events w (snd (snd r)) =
        [Request_muxed_region 0x2e 2 True, Outb 0x87 0x2e, Outb 0x87 0x2e,
         Outb 0x07 0x2e, Outb 0x08 0x2f, Outb 0xf1 0x2e, Inb 0x2f 0x5b,
         Outb 0xf1 0x2e, Outb 0x5a 0x2f,
         Outb 0xaa 0x2e, Outb 0x02 0x2e, Outb 0x02 0x2f, Release_region 0x2e 2])"
proof -
  let ?w = "snd (nct6775_probe unlisted_env 0x295 demo_sio demo_hw)"
  have a: "\<not> on_allow_list (board_vendor unlisted_env) (board_name unlisted_env)"
    by (simp add: unlisted_env_def on_allow_list_def)
  have d: "\<not> have_hddsaver unlisted_data" "\<not> hddsaver_status unlisted_data"
    by (simp_all add: unlisted_data_def)
  have "gpio1_data demo_hw = 0x5b"
    by (simp add: gpio1_data_def demo_hw_def reg_consts)
  then have g: "gpio1_data ?w = 0x5b"
    by (simp add: gpio1_data_def unlisted_probe(2))
  have "sd_sioreg demo_sio = 0x2e" by (simp add: demo_sio_def)
  then have c: "chip_port ?w = sd_sioreg demo_sio"
    using unlisted_probe(3) by simp
  have v: "True \<noteq> hddsaver_status unlisted_data" using d by simp
  from store_flip [OF unlisted_probe(4,5) c v, of 2] g
  show ?thesis using a d unlisted_probe(1)
    by (auto simp add: Let_def gpio1_data_def demo_sio_def enter_events_def exit_events_def
        reg_consts)
qed

subsection \<open>Resume and the remembered enable register\<close>

text \<open>
  Claim C4 says that resume writes back the value of the hardware-monitor enable
  register that was last seen on the hardware before the suspend. The driver reads that
  register and writes \<open>sio_reg_enable\<close> when the two differ (lemma \<open>resume_result\<close>),
  but nothing ever stores the register into \<open>sio_reg_enable\<close>: after every successful
  probe it is the zero of \<open>devm_kzalloc\<close> (lemma \<open>probe_never_remembers\<close>). On a
  machine whose hardware monitor is enabled (register \<open>0x01\<close>, never changed), probe,
  suspend and resume end with the register written to \<open>0x00\<close>.
\<close>

theorem resume_clears_hwm_enable:
  "fst (nct6775_probe listed_env 0x295 demo_sio demo_hw) = Inr listed_data \<and>
   sio_reg_enable listed_data = 0 \<and>
   (let w = snd (nct6775_probe listed_env 0x295 demo_sio demo_hw);
        d = snd (hddsaver_suspend 250 5000 listed_data);
        r = hddsaver_resume d w in
      hwm_enable demo_hw = 0x01 \<and> hwm_enable w = 0x01 \<and> sio_reg_enable d = 0 \<and>
      fst r = None \<and> hwm_enable (snd (snd r)) = 0x00 \<and>
      new_events w (snd (snd r)) =
        [Request_muxed_region 0x2e 2 True, Outb 0x87 0x2e, Outb 0x87 0x2e,
         Outb 0x07 0x2e, Outb 0x0b 0x2f, Outb 0x30 0x2e, Inb 0x2f 0x01,
         Outb 0x30 0x2e, Outb 0x00 0x2f,
         Outb 0x28 0x2e, Inb 0x2f 0x10, Outb 0x28 0x2e, Outb 0x00 0x2f,
         Outb 0xaa 0x2e, Outb 0x02 0x2e, Outb 0x02 0x2f, Release_region 0x2e 2])"
proof -
  let ?w = "snd (nct6775_probe listed_env 0x295 demo_sio demo_hw)"
  let ?d = "snd (hddsaver_suspend 250 5000 listed_data)"
  have d: "sioreg ?d = 0x2e" "sio_reg_enable ?d = 0" "sio_reg_enable listed_data = 0"
    by (simp_all add: hddsaver_suspend_def nct6775_update_device_def listed_data_def
        unlisted_data_def)
  have c: "chip_port ?w = sioreg ?d" by (simp add: d listed_probe(4))
  have g0: "hwm_enable demo_hw = 0x01" "cr_global demo_hw 0x28 = 0x10"
    by (simp_all add: hwm_enable_def demo_hw_def reg_consts)
  then have g: "hwm_enable ?w = 0x01" "hwm_enable demo_hw = 0x01" "cr_global ?w 0x28 = 0x10"
    by (simp_all add: hwm_enable_def listed_probe(2,3))
  from resume_result [OF listed_probe(5,6) c] g d listed_probe(1)
  show ?thesis
    by (auto simp add: Let_def enter_events_def exit_events_def)
qed

subsection \<open>A read with a stale cache\<close>

text \<open>
  Claim C2 says that a read with a stale or invalid cache enters the bracket, selects
  the GPIO logical device and reads the status bit again before it answers.
  \<open>nct6775_update_device\<close> only stamps \<open>last_updated\<close> and sets \<open>valid\<close>:
  \<open>show_hddsaver\<close> does not touch the machine at all. With the cache invalid (as resume
  leaves it), or valid and older than \<open>HZ + HZ / 2\<close>, and bit 0 of the register clear,
  the read still answers \<open>On\<close> from the cache, marks the cache valid, and the trace
  of the machine is unchanged.
\<close>

theorem stale_read_not_refreshed:
  "(let d = listed_data\<lparr>bank := 0xff, valid := False\<rparr> in
      \<not> valid d \<and> hddsaver_status d \<and> \<not> bit (gpio1_data cold_hw) 0 \<and>
      show_hddsaver 250 5000 d = (''On'' @ [CHR 0x0A], d\<lparr>last_updated := 5000, valid := True\<rparr>) \<and>
      surface_step 250 demo_sio (Read_toggle 5000) (d, cold_hw) =
        (d\<lparr>last_updated := 5000, valid := True\<rparr>, cold_hw)) \<and>
   (let d = listed_data\<lparr>valid := True, last_updated := 1000\<rparr> in
      time_after 5000 (last_updated d + 250 + 250 div 2) \<and>
      show_hddsaver 250 5000 d = (''On'' @ [CHR 0x0A], d\<lparr>last_updated := 5000\<rparr>) \<and>
      surface_step 250 demo_sio (Read_toggle 5000) (d, cold_hw) =
        (d\<lparr>last_updated := 5000\<rparr>, cold_hw))"
proof -
  have t: "time_after (5000 :: ulong) (1000 + 250 + 250 div 2)"
    by (simp add: time_after_def)
  have g: "\<not> bit (gpio1_data cold_hw) 0"
    by (simp add: gpio1_data_def cold_hw_def demo_hw_def reg_consts bit_numeral_simps)
  show ?thesis using t g
    by (simp add: Let_def show_hddsaver_def nct6775_update_device_def listed_data_def
        unlisted_data_def)
qed

end
